theory Spec2Isabelle
  imports Complex_Main "HOL-Library.Word" "HOL-Library.Monad_Syntax"
begin

section \<open>Procedural animator (AvatarCanvas.tsx)\<close>

text \<open>
  JavaScript numbers are IEEE doubles. The animator's arithmetic is modelled over the
  reals: its inputs are finite and the properties below (clamping, fixed table entries,
  fixed per-frame deltas) do not depend on rounding.
\<close>

subsection \<open>Camera presets\<close>

datatype CameraAngle = front | threeQuarterLeft | threeQuarterRight | closeUp | wide

record CameraOffset =
  cam_x :: real
  cam_y :: real
  cam_scale :: real

text \<open>\<^verbatim>\<open>computeCameraOffset\<close>: a switch with four cases; \<^verbatim>\<open>front\<close> is the default branch.\<close>

fun computeCameraOffset :: "CameraAngle \<Rightarrow> CameraOffset" where
  "computeCameraOffset threeQuarterLeft = \<lparr>cam_x = -30, cam_y = 0.52, cam_scale = 1.02\<rparr>"
| "computeCameraOffset threeQuarterRight = \<lparr>cam_x = 30, cam_y = 0.52, cam_scale = 1.02\<rparr>"
| "computeCameraOffset closeUp = \<lparr>cam_x = 0, cam_y = 0.45, cam_scale = 1.18\<rparr>"
| "computeCameraOffset wide = \<lparr>cam_x = 0, cam_y = 0.58, cam_scale = 0.92\<rparr>"
| "computeCameraOffset front = \<lparr>cam_x = 0, cam_y = 0.52, cam_scale = 1\<rparr>"

subsection \<open>Mouth openness\<close>

record EmotionState =
  happy :: real
  sad :: real
  angry :: real
  surprised :: real
  neutral :: real

definition clamp01 :: "real \<Rightarrow> real" where
  "clamp01 v = max 0 (min 1 v)"

text \<open>The first two constants of \<^verbatim>\<open>drawFacialFeatures\<close>.\<close>

definition mouthOpenBase :: "real \<Rightarrow> EmotionState \<Rightarrow> real" where
  "mouthOpenBase level emotions = level * (0.65 + surprised emotions / 180)"

definition mouthOpen :: "real \<Rightarrow> EmotionState \<Rightarrow> real" where
  "mouthOpen level emotions =
     clamp01 (mouthOpenBase level emotions + (happy emotions - sad emotions) / 400)"

subsection \<open>Blink state machine\<close>

record BlinkState =
  closing :: bool
  openness :: real
  target :: real

text \<open>
  The state that survives from one call of \<^verbatim>\<open>render\<close> to the next: the record behind
  \<^verbatim>\<open>blinkStateRef\<close> and the local \<^verbatim>\<open>lastBlinkTime\<close>.
\<close>

record RenderState =
  blinkStateRef :: BlinkState
  lastBlinkTime :: real

text \<open>What a frame reads from its environment: \<^verbatim>\<open>performance.now()\<close> and \<^verbatim>\<open>Math.random()\<close>.\<close>

record Frame =
  frame_now :: real
  frame_random :: real

definition blinkInitial :: BlinkState where
  "blinkInitial = \<lparr>closing = False, openness = 1, target = 1\<rparr>"

text \<open>The timer check at the head of \<^verbatim>\<open>render\<close>.\<close>

definition blinkTimer :: "Frame \<Rightarrow> RenderState \<Rightarrow> RenderState" where
  "blinkTimer f s =
     (let elapsed = frame_now f - lastBlinkTime s
      in if elapsed > 2800 + frame_random f * 2000
         then s\<lparr>blinkStateRef := (blinkStateRef s)\<lparr>closing := True, target := 0\<rparr>,
                lastBlinkTime := frame_now f\<rparr>
         else s)"

text \<open>The two branches that move the eyelid.\<close>

definition blinkAdvance :: "BlinkState \<Rightarrow> BlinkState" where
  "blinkAdvance b =
     (if closing b then
        (let b1 = b\<lparr>openness := openness b - 0.15\<rparr>
         in if openness b1 \<le> 0 then b1\<lparr>openness := 0, closing := False, target := 1\<rparr> else b1)
      else if openness b < target b then
        (let b1 = b\<lparr>openness := openness b + 0.12\<rparr>
         in if openness b1 \<ge> 1 then b1\<lparr>openness := 1\<rparr> else b1)
      else b)"

definition render :: "Frame \<Rightarrow> RenderState \<Rightarrow> RenderState" where
  "render f s = (let s1 = blinkTimer f s in s1\<lparr>blinkStateRef := blinkAdvance (blinkStateRef s1)\<rparr>)"

text \<open>One call of \<^verbatim>\<open>render\<close> per displayed frame.\<close>

primrec renderFrames :: "Frame list \<Rightarrow> RenderState \<Rightarrow> RenderState" where
  "renderFrames [] s = s"
| "renderFrames (f # fs) s = renderFrames fs (render f s)"

section \<open>Audio pipeline (useAudioEngine.ts)\<close>

subsection \<open>Values and browser objects\<close>

text \<open>
  A JavaScript number as \<^verbatim>\<open>Number.isFinite\<close> sees it: a finite value, one of the two
  infinities, or NaN.
\<close>

datatype number = Finite real | PosInfinity | NegInfinity | NaN

fun isFinite :: "number \<Rightarrow> bool" where
  "isFinite (Finite r) = True"
| "isFinite PosInfinity = False"
| "isFinite NegInfinity = False"
| "isFinite NaN = False"

datatype js_error = TypeError | RangeError

datatype SourceType = upload | tts | video

record AudioSourceMeta =
  meta_type :: SourceType
  meta_label :: string
  meta_duration :: real
  meta_url :: string

text \<open>The part of an \<^verbatim>\<open>HTMLAudioElement\<close> that the transport controls touch.\<close>

record HTMLMediaElement =
  el_src :: "string option"
  el_paused :: bool
  el_currentTime :: real

text \<open>
  The setter of \<^verbatim>\<open>currentTime\<close> takes a \<^verbatim>\<open>double\<close>: the browser throws a TypeError for
  a value that is not finite.
\<close>

fun set_currentTime :: "number \<Rightarrow> HTMLMediaElement \<Rightarrow> js_error + HTMLMediaElement" where
  "set_currentTime (Finite r) el = Inr (el\<lparr>el_currentTime := r\<rparr>)"
| "set_currentTime v el = Inl TypeError"

definition pause :: "HTMLMediaElement \<Rightarrow> HTMLMediaElement" where
  "pause el = el\<lparr>el_paused := True\<rparr>"

definition removeAttribute_src :: "HTMLMediaElement \<Rightarrow> HTMLMediaElement" where
  "removeAttribute_src el = el\<lparr>el_src := None\<rparr>"

text \<open>\<^verbatim>\<open>load()\<close> resets the element: playback is paused and the position returns to 0.\<close>

definition load :: "HTMLMediaElement \<Rightarrow> HTMLMediaElement" where
  "load el = el\<lparr>el_paused := True, el_currentTime := 0\<rparr>"

record MediaElementAudioSourceNode =
  node_connected :: bool

subsection \<open>The hook's state\<close>

text \<open>
  The React state cells and the refs of \<^verbatim>\<open>useAudioEngine\<close> that the operations below read
  or write. \<^verbatim>\<open>animationFrameRef\<close> is 0 when no analysis callback is registered;
  \<^verbatim>\<open>pendingFrames\<close> is the browser's list of registered frame callbacks, by handle.
\<close>

record AudioEngine =
  audioLevel :: real
  isPlaying :: bool
  duration :: real
  currentTime :: real
  error :: "string option"
  sourceMeta :: "AudioSourceMeta option"
  audioElementRef :: "HTMLMediaElement option"
  sourceNodeRef :: "MediaElementAudioSourceNode option"
  animationFrameRef :: nat
  pendingFrames :: "nat list"

definition cancelAnimationFrame :: "nat \<Rightarrow> nat list \<Rightarrow> nat list" where
  "cancelAnimationFrame h pending = removeAll h pending"

text \<open>
  \<^verbatim>\<open>seek\<close>: returns at once without an element or for a value that is not finite;
  otherwise assigns the position.
\<close>

definition seek :: "number \<Rightarrow> AudioEngine \<Rightarrow> js_error + AudioEngine" where
  "seek v s =
     (if audioElementRef s = None \<or> \<not> isFinite v then Inr s
      else case set_currentTime v (the (audioElementRef s)) of
             Inl e \<Rightarrow> Inl e
           | Inr audio \<Rightarrow> Inr (s\<lparr>audioElementRef := Some audio\<rparr>))"

text \<open>
  \<^verbatim>\<open>cleanupSource\<close>: the source node is disconnected (an exception of \<^verbatim>\<open>disconnect\<close> is
  caught and ignored) and forgotten, the registered frame callback is cancelled, the level
  is set to 0.
\<close>

definition cleanupSource :: "AudioEngine \<Rightarrow> AudioEngine" where
  "cleanupSource s =
     (let s1 = (case sourceNodeRef s of
                  Some node \<Rightarrow> s\<lparr>sourceNodeRef := None\<rparr>
                | None \<Rightarrow> s);
          s2 = (if animationFrameRef s1 \<noteq> 0
                then s1\<lparr>pendingFrames := cancelAnimationFrame (animationFrameRef s1) (pendingFrames s1),
                        animationFrameRef := 0\<rparr>
                else s1)
      in s2\<lparr>audioLevel := 0\<rparr>)"

text \<open>
  \<^verbatim>\<open>release\<close>: what the call itself does. The events that the element fires afterwards
  reach the state cells later, in the handlers of the hook.
\<close>

definition release :: "AudioEngine \<Rightarrow> AudioEngine" where
  "release s =
     (let s1 = cleanupSource s;
          s2 = s1\<lparr>sourceMeta := None\<rparr>
      in case audioElementRef s2 of
           Some audio \<Rightarrow> s2\<lparr>audioElementRef := Some (load (removeAttribute_src (pause audio)))\<rparr>
         | None \<Rightarrow> s2)"

text \<open>
  Two states for the examples: a pipeline that plays synthesized speech with the analysis
  callback registered under handle 7, and the same pipeline emptied.
\<close>

definition playingEngine :: AudioEngine where
  "playingEngine =
     \<lparr>audioLevel = 3 / 10, isPlaying = True, duration = 2, currentTime = 1 / 2, error = None,
      sourceMeta = Some \<lparr>meta_type = tts, meta_label = ''AI Voice (2.0s)'', meta_duration = 2,
                         meta_url = ''blob:a''\<rparr>,
      audioElementRef = Some \<lparr>el_src = Some ''blob:a'', el_paused = False, el_currentTime = 1 / 2\<rparr>,
      sourceNodeRef = Some \<lparr>node_connected = True\<rparr>,
      animationFrameRef = 7, pendingFrames = [7]\<rparr>"

definition releasedEngine :: AudioEngine where
  "releasedEngine =
     \<lparr>audioLevel = 0, isPlaying = True, duration = 2, currentTime = 1 / 2, error = None,
      sourceMeta = None,
      audioElementRef = Some \<lparr>el_src = None, el_paused = True, el_currentTime = 0\<rparr>,
      sourceNodeRef = None,
      animationFrameRef = 0, pendingFrames = []\<rparr>"

section \<open>Signal synthesizer (useAudioEngine.ts)\<close>

subsection \<open>Double-precision arithmetic\<close>

text \<open>
  The durations and lengths of the synthesizer are computed in IEEE double precision, and
  a floor is taken of a product: rounding decides the buffer length. \<^verbatim>\<open>toDouble\<close>
  rounds a real to the nearest double, ties to the even significand of 53 bits; a product
  or a sum of doubles is the rounded exact result, and a decimal literal of the source
  denotes the double nearest to it. Overflow and subnormal numbers are left out: every
  value below lies between 0.015 and 2^53.
\<close>

definition binexp :: "real \<Rightarrow> int" where
  "binexp x = \<lfloor>log 2 \<bar>x\<bar>\<rfloor>"

definition roundTiesToEven :: "real \<Rightarrow> int" where
  "roundTiesToEven x =
     (let f = \<lfloor>x\<rfloor>; r = x - of_int f
      in if r < 1 / 2 then f else if 1 / 2 < r then f + 1 else if even f then f else f + 1)"

definition toDouble :: "real \<Rightarrow> real" where
  "toDouble x =
     (if x = 0 then 0
      else of_int (roundTiesToEven (x / 2 powi (binexp x - 52))) * 2 powi (binexp x - 52))"

subsection \<open>Text\<close>

text \<open>
  A JavaScript string is a sequence of UTF-16 code units. \<^verbatim>\<open>isWhiteSpace\<close> is the class
  \<^verbatim>\<open>\s\<close> of a regular expression; \<^verbatim>\<open>isLetterOrSpace\<close> is what \<^verbatim>\<open>/[^a-z ]/gi\<close> does not
  match, the letters A to Z in either case and the space.
\<close>

type_synonym code_unit = "16 word"
type_synonym js_string = "code_unit list"

definition isWhiteSpace :: "code_unit \<Rightarrow> bool" where
  "isWhiteSpace c =
     (c \<in> set [0x09, 0x0A, 0x0B, 0x0C, 0x0D, 0x20, 0xA0, 0x1680, 0x2028, 0x2029, 0x202F,
                0x205F, 0x3000, 0xFEFF]
      \<or> (0x2000 \<le> c \<and> c \<le> 0x200A))"

definition isLetterOrSpace :: "code_unit \<Rightarrow> bool" where
  "isLetterOrSpace c = ((0x61 \<le> c \<and> c \<le> 0x7A) \<or> (0x41 \<le> c \<and> c \<le> 0x5A) \<or> c = 0x20)"

text \<open>
  \<^verbatim>\<open>text.split(/\s+/)\<close>: every maximal run of white space separates two pieces; a piece
  may be empty at either end of the text. \<^verbatim>\<open>cur\<close> is the piece being read.
\<close>

function splitWhitespace :: "js_string \<Rightarrow> js_string \<Rightarrow> js_string list" where
  "splitWhitespace cur [] = [cur]"
| "splitWhitespace cur (c # cs) =
     (if isWhiteSpace c then cur # splitWhitespace [] (dropWhile isWhiteSpace cs)
      else splitWhitespace (cur @ [c]) cs)"
  by pat_completeness auto
termination
  by (relation "measure (\<lambda>(cur, cs). length cs)")
     (auto simp: length_dropWhile_le less_Suc_eq_le)

text \<open>The first constants of \<^verbatim>\<open>synthesizeSpeech\<close>.\<close>

definition words :: "js_string \<Rightarrow> js_string list" where
  "words text = filter (\<lambda>w. w \<noteq> []) (splitWhitespace [] text)"

definition phonemes :: "js_string \<Rightarrow> code_unit list" where
  "phonemes text = filter isLetterOrSpace text"

definition sampleRate :: nat where
  "sampleRate = 48000"

definition baseDuration :: "js_string \<Rightarrow> real" where
  "baseDuration text =
     max (toDouble (real (length (phonemes text)) * toDouble 0.055)) (toDouble 0.9)"

definition fullDuration :: "js_string \<Rightarrow> real" where
  "fullDuration text =
     toDouble (baseDuration text + toDouble (real (length (words text)) * toDouble 0.08))"

definition bufferLength :: "js_string \<Rightarrow> nat" where
  "bufferLength text = nat \<lfloor>toDouble (real sampleRate * fullDuration text)\<rfloor>"

subsection \<open>The sample loop\<close>

definition phonemeDuration :: "code_unit \<Rightarrow> real" where
  "phonemeDuration ch =
     max (toDouble 0.04) (if ch = 0x20 then toDouble 0.08 else toDouble 0.06)"

definition burstLength :: "code_unit \<Rightarrow> nat" where
  "burstLength ch = nat \<lfloor>toDouble (real sampleRate * phonemeDuration ch)\<rfloor>"

definition burstFreq :: "code_unit \<Rightarrow> nat" where
  "burstFreq ch = 160 + (unat ch * 13) mod 120"

text \<open>
  The value of a sample, over the reals: no property below depends on it, and the store
  into the \<^verbatim>\<open>Float32Array\<close> rounds it once more.
\<close>

definition burstSample :: "nat \<Rightarrow> nat \<Rightarrow> nat \<Rightarrow> real" where
  "burstSample freq len n =
     (let t = real n / real sampleRate;
          envelope = sin (pi * (real n / real len));
          vibrato = sin (2 * pi * 4 * t) * 5;
          fundamental = sin (2 * pi * (real freq + vibrato) * t);
          harmonic = sin (2 * pi * (real freq * 2.02 + vibrato) * t) * 0.35;
          third = sin (2 * pi * (real freq * 3.05 + vibrato) * t) * 0.18
      in (fundamental + harmonic + third) * envelope * 0.4)"

text \<open>
  The \<^verbatim>\<open>Float32Array\<close> of the synthesizer, with a history: \<^verbatim>\<open>stores\<close> lists, in order,
  every index that the loop has assigned to. A store outside a typed array is dropped by
  the engine without an error; the history records it all the same.
\<close>

record SynthBuffer =
  samples :: "real list"
  stores :: "int list"

definition addSample :: "int \<Rightarrow> real \<Rightarrow> SynthBuffer \<Rightarrow> SynthBuffer" where
  "addSample i v b =
     \<lparr>samples = (if 0 \<le> i \<and> i < int (length (samples b))
                 then (samples b)[nat i := samples b ! nat i + v]
                 else samples b),
      stores = stores b @ [i]\<rparr>"

text \<open>The inner loop, from sample \<^verbatim>\<open>n\<close> of the burst on.\<close>

function burstLoop :: "nat \<Rightarrow> nat \<Rightarrow> int \<Rightarrow> nat \<Rightarrow> SynthBuffer \<Rightarrow> SynthBuffer" where
  "burstLoop freq len position n b =
     (if n < len \<and> position + int n < int (length (samples b))
      then burstLoop freq len position (n + 1)
             (addSample (position + int n) (burstSample freq len n) b)
      else b)"
  by pat_completeness auto
termination
  by (relation "measure (\<lambda>(freq, len, position, n, b). len - n)") auto

declare burstLoop.simps [simp del]

text \<open>The outer loop over the phonemes that remain.\<close>

fun phonemeLoop :: "code_unit list \<Rightarrow> int \<Rightarrow> SynthBuffer \<Rightarrow> SynthBuffer" where
  "phonemeLoop [] position b = b"
| "phonemeLoop (ch # rest) position b =
     (let len = burstLength ch;
          b1 = burstLoop (burstFreq ch) len position 0 b
      in phonemeLoop rest
           (position + (int len - \<lfloor>toDouble (real sampleRate * toDouble 0.015)\<rfloor>)) b1)"

text \<open>
  \<^verbatim>\<open>synthesizeSpeech\<close>, up to the hand-over to the encoder: the samples that are encoded
  and the duration that is returned, with the history of the stores.
\<close>

record Speech =
  speech_samples :: "real list"
  speech_duration :: real
  speech_stores :: "int list"

definition synthesizeSpeech :: "js_string \<Rightarrow> Speech" where
  "synthesizeSpeech text =
     (let b = phonemeLoop (phonemes text) 0 \<lparr>samples = replicate (bufferLength text) 0, stores = []\<rparr>
      in \<lparr>speech_samples = samples b, speech_duration = fullDuration text, speech_stores = stores b\<rparr>)"

text \<open>
  The duration as the specification words it, in exact arithmetic: the sum of the phoneme
  durations (0.08 s for a space, 0.06 s for a letter, floored at 0.04 s) plus 0.08 s for
  each word.
\<close>

definition specPhonemeDuration :: "code_unit \<Rightarrow> real" where
  "specPhonemeDuration ch = max 0.04 (if ch = 0x20 then 0.08 else 0.06)"

definition specDuration :: "js_string \<Rightarrow> real" where
  "specDuration text =
     sum_list (map specPhonemeDuration (phonemes text)) + 0.08 * real (length (words text))"

text \<open>
  Texts for the examples: a word of seventeen letters, the text "abcdefgh ijklmnopq", and
  the text that the page offers by default.
\<close>

definition eighteenPhonemes :: js_string where
  "eighteenPhonemes = [0x61, 0x62, 0x63, 0x64, 0x65, 0x66, 0x67, 0x68, 0x20, 0x69, 0x6A, 0x6B,
                       0x6C, 0x6D, 0x6E, 0x6F, 0x70, 0x71]"

definition defaultText :: js_string where
  "defaultText = map of_char
     ''Hey there! Welcome to our lip sync studio. Try changing my emotions, avatar, and backdrop, then press play.''"


definition seventeenLetters :: js_string where
  "seventeenLetters = [0x61, 0x62, 0x63, 0x64, 0x65, 0x66, 0x67, 0x68, 0x69, 0x6A, 0x6B, 0x6C,
                       0x6D, 0x6E, 0x6F, 0x70, 0x71]"

section \<open>WAV encoder (the worker of useAudioEngine.ts)\<close>

subsection \<open>DataView\<close>

text \<open>
  The \<^verbatim>\<open>ArrayBuffer\<close> under the \<^verbatim>\<open>DataView\<close> is a list of bytes. A setter throws a
  RangeError when the access does not fit the buffer (the result \<^verbatim>\<open>None\<close>); it reduces its
  value modulo 2^8, 2^16 or 2^32 and stores it little-endian, as the calls of
  \<^verbatim>\<open>encodeWav\<close> ask. \<^verbatim>\<open>setInt16\<close> first truncates its number towards zero. The values
  that \<^verbatim>\<open>encodeWav\<close> stores through the unsigned setters are natural numbers: sizes, and
  a sample rate that is a whole number of hertz. Samples are finite reals: the products
  \<^verbatim>\<open>s * 0x8000\<close> and \<^verbatim>\<open>s * 0x7fff\<close> of a 32-bit float are exact in double precision.
  The buffer is allocated with zeros; an engine's limit on the size of an allocation is not
  part of the model.
\<close>

type_synonym byte = "8 word"

definition setUint8 :: "byte list \<Rightarrow> nat \<Rightarrow> nat \<Rightarrow> byte list option" where
  "setUint8 view byteOffset v =
     (if byteOffset + 1 \<le> length view then Some (view[byteOffset := of_nat v]) else None)"

definition setUint16 :: "byte list \<Rightarrow> nat \<Rightarrow> nat \<Rightarrow> byte list option" where
  "setUint16 view byteOffset v =
     (if byteOffset + 2 \<le> length view
      then Some (view[byteOffset := of_nat v, byteOffset + 1 := of_nat (v div 256)])
      else None)"

definition setUint32 :: "byte list \<Rightarrow> nat \<Rightarrow> nat \<Rightarrow> byte list option" where
  "setUint32 view byteOffset v =
     (if byteOffset + 4 \<le> length view
      then Some (view[byteOffset := of_nat v, byteOffset + 1 := of_nat (v div 256),
                      byteOffset + 2 := of_nat (v div 65536),
                      byteOffset + 3 := of_nat (v div 16777216)])
      else None)"

definition truncateNumber :: "real \<Rightarrow> int" where
  "truncateNumber x = (if x < 0 then \<lceil>x\<rceil> else \<lfloor>x\<rfloor>)"

definition setInt16 :: "byte list \<Rightarrow> nat \<Rightarrow> real \<Rightarrow> byte list option" where
  "setInt16 view byteOffset x =
     (let i = truncateNumber x
      in if byteOffset + 2 \<le> length view
         then Some (view[byteOffset := of_int i, byteOffset + 1 := of_int (i div 256)])
         else None)"

subsection \<open>The encoder\<close>

fun writeString :: "byte list \<Rightarrow> nat \<Rightarrow> string \<Rightarrow> byte list option" where
  "writeString view offset [] = Some view"
| "writeString view offset (c # cs) =
     do { v \<leftarrow> setUint8 view offset (of_char c); writeString v (offset + 1) cs }"

text \<open>
  \<^verbatim>\<open>floatTo16BitPCM\<close>: sample \<^verbatim>\<open>i\<close> goes to \<^verbatim>\<open>offset + i * 2\<close>; the recursion carries the
  offset of the next sample.
\<close>

fun floatTo16BitPCM :: "byte list \<Rightarrow> nat \<Rightarrow> real list \<Rightarrow> byte list option" where
  "floatTo16BitPCM output offset [] = Some output"
| "floatTo16BitPCM output offset (x # xs) =
     (let s = max (- 1) (min 1 x)
      in do {
           out \<leftarrow> setInt16 output offset (if s < 0 then s * 32768 else s * 32767);
           floatTo16BitPCM out (offset + 2) xs
         })"

definition encodeWav :: "real list \<Rightarrow> nat \<Rightarrow> byte list option" where
  "encodeWav input rate =
     (let bytesPerSample = 2;
          blockAlign = bytesPerSample;
          buffer = replicate (44 + length input * bytesPerSample) 0
      in do {
           v \<leftarrow> writeString buffer 0 ''RIFF'';
           v \<leftarrow> setUint32 v 4 (36 + length input * bytesPerSample);
           v \<leftarrow> writeString v 8 ''WAVE'';
           v \<leftarrow> writeString v 12 ''fmt '';
           v \<leftarrow> setUint32 v 16 16;
           v \<leftarrow> setUint16 v 20 1;
           v \<leftarrow> setUint16 v 22 1;
           v \<leftarrow> setUint32 v 24 rate;
           v \<leftarrow> setUint32 v 28 (rate * blockAlign);
           v \<leftarrow> setUint16 v 32 blockAlign;
           v \<leftarrow> setUint16 v 34 (bytesPerSample * 8);
           v \<leftarrow> writeString v 36 ''data'';
           v \<leftarrow> setUint32 v 40 (length input * bytesPerSample);
           floatTo16BitPCM v 44 input
         })"

subsection \<open>Reading a container\<close>

text \<open>The getters of a \<^verbatim>\<open>DataView\<close>, little-endian, and the tag of four bytes at an offset.\<close>

definition getUint16 :: "byte list \<Rightarrow> nat \<Rightarrow> nat" where
  "getUint16 view byteOffset = unat (view ! byteOffset) + 256 * unat (view ! (byteOffset + 1))"

definition getUint32 :: "byte list \<Rightarrow> nat \<Rightarrow> nat" where
  "getUint32 view byteOffset =
     unat (view ! byteOffset) + 256 * unat (view ! (byteOffset + 1))
     + 65536 * unat (view ! (byteOffset + 2)) + 16777216 * unat (view ! (byteOffset + 3))"

definition readTag :: "byte list \<Rightarrow> nat \<Rightarrow> byte list" where
  "readTag view byteOffset = take 4 (drop byteOffset view)"

text \<open>The fields of the 44-byte header, by their offsets.\<close>

definition riffSizeField :: "byte list \<Rightarrow> nat" where
  "riffSizeField bytes = getUint32 bytes 4"

definition fmtSizeField :: "byte list \<Rightarrow> nat" where
  "fmtSizeField bytes = getUint32 bytes 16"

definition audioFormatField :: "byte list \<Rightarrow> nat" where
  "audioFormatField bytes = getUint16 bytes 20"

definition numChannelsField :: "byte list \<Rightarrow> nat" where
  "numChannelsField bytes = getUint16 bytes 22"

definition sampleRateField :: "byte list \<Rightarrow> nat" where
  "sampleRateField bytes = getUint32 bytes 24"

definition byteRateField :: "byte list \<Rightarrow> nat" where
  "byteRateField bytes = getUint32 bytes 28"

definition blockAlignField :: "byte list \<Rightarrow> nat" where
  "blockAlignField bytes = getUint16 bytes 32"

definition bitsPerSampleField :: "byte list \<Rightarrow> nat" where
  "bitsPerSampleField bytes = getUint16 bytes 34"

definition dataSizeField :: "byte list \<Rightarrow> nat" where
  "dataSizeField bytes = getUint32 bytes 40"

subsection \<open>Parsing a container\<close>

text \<open>
  Modelled from the spec: the sample format of the parser below, which the repository does
  not contain. A sample is a little-endian signed 16-bit integer ("16-bit signed samples"
  in section 4.2).
\<close>

definition int16 :: "byte \<Rightarrow> byte \<Rightarrow> int" where
  "int16 lo hi =
     (let u = unat lo + 256 * unat hi in if u < 32768 then int u else int u - 65536)"

text \<open>
  Modelled from the spec: the data chunk of the parser below, which the repository does not
  contain. Each pair of bytes is one sample, scaled by 1/32768 ("16-bit PCM precision" in
  section 8).
\<close>

fun pcmSamples :: "byte list \<Rightarrow> real list" where
  "pcmSamples (lo # hi # rest) = real_of_int (int16 lo hi) / 32768 # pcmSamples rest"
| "pcmSamples rest = []"

record WavAudio =
  wav_sampleRate :: nat
  wav_samples :: "real list"

text \<open>
  Modelled from the spec: the parser of the round-trip property of section 8, which the
  repository does not contain. It reads the container that section 6 describes, a standard
  uncompressed linear-PCM container, mono, 16-bit: it checks the four tags, the format
  (1, linear PCM), one channel and 16 bits per sample, and takes the sample rate from its
  field and the samples from the data chunk.
\<close>

definition parseWav :: "byte list \<Rightarrow> WavAudio option" where
  "parseWav bytes =
     (if length bytes < 44 then None
      else if readTag bytes 0 = [0x52, 0x49, 0x46, 0x46] \<and> readTag bytes 8 = [0x57, 0x41, 0x56, 0x45]
              \<and> readTag bytes 12 = [0x66, 0x6D, 0x74, 0x20] \<and> readTag bytes 36 = [0x64, 0x61, 0x74, 0x61]
              \<and> getUint16 bytes 20 = 1 \<and> getUint16 bytes 22 = 1 \<and> getUint16 bytes 34 = 16
      then (let dataSize = getUint32 bytes 40
            in if length bytes < 44 + dataSize then None
               else Some \<lparr>wav_sampleRate = getUint32 bytes 24,
                          wav_samples = pcmSamples (take dataSize (drop 44 bytes))\<rparr>)
      else None)"

subsection \<open>The container in closed form\<close>

text \<open>
  What \<^verbatim>\<open>encodeWav\<close> is shown to return: the header of \<^verbatim>\<open>n\<close> samples at a rate,
  followed by two bytes for each sample; \<^verbatim>\<open>pcmValue\<close> is the value that the parser reads
  back from those two bytes.
\<close>

definition le16 :: "nat \<Rightarrow> byte list" where
  "le16 v = [of_nat v, of_nat (v div 256)]"

definition le32 :: "nat \<Rightarrow> byte list" where
  "le32 v = [of_nat v, of_nat (v div 256), of_nat (v div 65536), of_nat (v div 16777216)]"

definition wavHeader :: "nat \<Rightarrow> nat \<Rightarrow> byte list" where
  "wavHeader n rate =
     [0x52, 0x49, 0x46, 0x46] @ le32 (36 + n * 2) @ [0x57, 0x41, 0x56, 0x45]
     @ [0x66, 0x6D, 0x74, 0x20] @ le32 16 @ le16 1 @ le16 1 @ le32 rate @ le32 (rate * 2)
     @ le16 2 @ le16 16 @ [0x64, 0x61, 0x74, 0x61] @ le32 (n * 2)"

definition pcm16 :: "real \<Rightarrow> byte list" where
  "pcm16 x =
     (let s = max (- 1) (min 1 x);
          i = truncateNumber (if s < 0 then s * 32768 else s * 32767)
      in [of_int i, of_int (i div 256)])"

definition wavHeaderFields :: "nat \<Rightarrow> nat \<Rightarrow> nat \<Rightarrow> nat \<Rightarrow> byte list" where
  "wavHeaderFields riffSize rate byteRate dataSize =
     [0x52, 0x49, 0x46, 0x46] @ le32 riffSize @ [0x57, 0x41, 0x56, 0x45]
     @ [0x66, 0x6D, 0x74, 0x20] @ le32 16 @ le16 1 @ le16 1 @ le32 rate @ le32 byteRate
     @ le16 2 @ le16 16 @ [0x64, 0x61, 0x74, 0x61] @ le32 dataSize"

definition pcmValue :: "real \<Rightarrow> real" where
  "pcmValue x =
     (let s = max (- 1) (min 1 x)
      in real_of_int (truncateNumber (if s < 0 then s * 32768 else s * 32767)) / 32768)"

text \<open>
  Containers for the examples: no samples at 2147483648 Hz, and the samples 0, 1/2
  and -1 at 48000 Hz.
\<close>

definition emptyWavAt2GHz :: "byte list" where
  "emptyWavAt2GHz =
     [0x52, 0x49, 0x46, 0x46, 36, 0, 0, 0, 0x57, 0x41, 0x56, 0x45,
      0x66, 0x6D, 0x74, 0x20, 16, 0, 0, 0, 1, 0, 1, 0,
      0, 0, 0, 0x80, 0, 0, 0, 0, 2, 0, 16, 0,
      0x64, 0x61, 0x74, 0x61, 0, 0, 0, 0]"

definition threeSampleWav :: "byte list" where
  "threeSampleWav =
     [0x52, 0x49, 0x46, 0x46, 42, 0, 0, 0, 0x57, 0x41, 0x56, 0x45,
      0x66, 0x6D, 0x74, 0x20, 16, 0, 0, 0, 1, 0, 1, 0,
      0x80, 0xBB, 0, 0, 0x00, 0x77, 0x01, 0, 2, 0, 16, 0,
      0x64, 0x61, 0x74, 0x61, 6, 0, 0, 0,
      0, 0, 0xFF, 0x3F, 0x00, 0x80]"

section \<open>Capture and export (ExportPanel)\<close>

datatype ExportStatus = Idle | Recording | Processing | Complete | Error

datatype Track = VideoTrack nat | AudioTrack nat

fun isVideo :: "Track \<Rightarrow> bool" where
  "isVideo (VideoTrack n) = True"
| "isVideo (AudioTrack n) = False"

type_synonym MediaStream = "Track list"

definition getVideoTracks :: "MediaStream \<Rightarrow> Track list" where
  "getVideoTracks st = filter isVideo st"

definition getAudioTracks :: "MediaStream \<Rightarrow> Track list" where
  "getAudioTracks st = filter (\<lambda>t. \<not> isVideo t) st"

datatype RecorderState = inactive | active | paused

record MediaRecorder =
  rec_stream :: MediaStream
  rec_mimeType :: string
  rec_videoBitsPerSecond :: nat
  rec_state :: RecorderState

text \<open>
  What a call of \<^verbatim>\<open>startRecording\<close> finds around it: the canvas behind \<^verbatim>\<open>canvasRef\<close> (by
  the stream that its \<^verbatim>\<open>captureStream(60)\<close> returns), the result of
  \<^verbatim>\<open>captureAudioStream()\<close>, and \<^verbatim>\<open>MediaRecorder.isTypeSupported\<close>.
\<close>

record ExportEnv =
  env_canvas :: "MediaStream option"
  env_audioStream :: "MediaStream option"
  env_isTypeSupported :: "string \<Rightarrow> bool"

text \<open>The state cells and refs of the panel; a chunk is known by its size.\<close>

record ExportPanel =
  status :: ExportStatus
  message :: "string option"
  downloadReady :: bool
  downloadSize :: "nat option"
  recorderRef :: "MediaRecorder option"
  exportChunksRef :: "nat list"
  downloadUrlRef :: "string option"
  lastMimeRef :: string

definition exportInitial :: ExportPanel where
  "exportInitial =
     \<lparr>status = Idle, message = None, downloadReady = False, downloadSize = None,
      recorderRef = None, exportChunksRef = [], downloadUrlRef = None,
      lastMimeRef = ''video/webm''\<rparr>"

text \<open>
  \<^verbatim>\<open>startRecording\<close>, up to and including \<^verbatim>\<open>recorder.start()\<close>. The function has no
  \<^verbatim>\<open>await\<close>: a call runs to its end before anything else does.
\<close>

definition startRecording :: "ExportEnv \<Rightarrow> string \<Rightarrow> ExportPanel \<Rightarrow> ExportPanel" where
  "startRecording env mimeType s =
     (case env_canvas env of
        None \<Rightarrow>
          s\<lparr>status := Error,
            message := Some ''Preview canvas not ready. Try again once the avatar is visible.''\<rparr>
      | Some canvasStream \<Rightarrow>
          if recorderRef s \<noteq> None then
            s\<lparr>status := Error, message := Some ''Recording already in progress.''\<rparr>
          else
            let s1 = s\<lparr>downloadReady := False, downloadSize := None\<rparr>;
                combinedStream =
                  (case env_audioStream env of
                     Some audioStream \<Rightarrow> getVideoTracks canvasStream @ getAudioTracks audioStream
                   | None \<Rightarrow> canvasStream);
                supportedMime =
                  (if env_isTypeSupported env mimeType then mimeType else ''video/webm'')
            in if \<not> env_isTypeSupported env supportedMime then
                 s1\<lparr>status := Error,
                    message := Some (''MediaRecorder does not support '' @ mimeType
                                      @ '' on this browser.'')\<rparr>
               else
                 let recorder = \<lparr>rec_stream = combinedStream, rec_mimeType = supportedMime,
                                 rec_videoBitsPerSecond = 5000000, rec_state = inactive\<rparr>
                 in s1\<lparr>lastMimeRef := supportedMime, exportChunksRef := [],
                       recorderRef := Some (recorder\<lparr>rec_state := active\<rparr>),
                       status := Recording,
                       message := Some ''Recording in progress... interact with controls or audio playback.''\<rparr>)"

text \<open>\<^verbatim>\<open>stopRecording\<close>: the recorder is stopped and the reference cleared.\<close>

definition stopRecording :: "ExportPanel \<Rightarrow> ExportPanel" where
  "stopRecording s =
     (case recorderRef s of
        None \<Rightarrow> s\<lparr>message := Some ''No active recording.''\<rparr>
      | Some recorder \<Rightarrow> s\<lparr>recorderRef := None\<rparr>)"

text \<open>
  An environment for the examples: the canvas is mounted, the audio graph exists, and the
  browser records WebM only.
\<close>

definition webmEnv :: ExportEnv where
  "webmEnv =
     \<lparr>env_canvas = Some [VideoTrack 1], env_audioStream = Some [AudioTrack 2],
      env_isTypeSupported = (\<lambda>m. m = ''video/webm'')\<rparr>"

definition recordingPanel :: ExportPanel where
  "recordingPanel =
     \<lparr>status = Recording,
      message = Some ''Recording in progress... interact with controls or audio playback.'',
      downloadReady = False, downloadSize = None,
      recorderRef = Some \<lparr>rec_stream = [VideoTrack 1, AudioTrack 2], rec_mimeType = ''video/webm'',
                           rec_videoBitsPerSecond = 5000000, rec_state = active\<rparr>,
      exportChunksRef = [], downloadUrlRef = None, lastMimeRef = ''video/webm''\<rparr>"

section \<open>Theorems\<close>

subsection \<open>Camera presets\<close>

text \<open>
  C8. The preset table maps \<^verbatim>\<open>closeUp\<close> to x offset 0, y fraction 0.45 and scale 1.18, and
  the default \<^verbatim>\<open>front\<close> angle to 0, 0.52 and 1.
\<close>

theorem camera_presets_closeUp_front:
  "computeCameraOffset closeUp = \<lparr>cam_x = 0, cam_y = 45 / 100, cam_scale = 118 / 100\<rparr>
   \<and> computeCameraOffset front = \<lparr>cam_x = 0, cam_y = 52 / 100, cam_scale = 1\<rparr>"
  by simp

subsection \<open>Mouth openness\<close>

text \<open>
  C1. For an audio level in [0,1] and non-negative weights happy, sad and surprised, the
  mouth openness of a frame is the clamp to [0,1] of
  audioLevel * (0.65 + surprised/180) + (happy - sad)/400, and it lies in [0,1].
\<close>

theorem mouthOpen_formula_in_unit_interval:
  assumes "0 \<le> level" and "level \<le> 1"
    and "0 \<le> happy e" and "0 \<le> sad e" and "0 \<le> surprised e"
  shows "mouthOpen level e =
           max 0 (min 1 (level * (65 / 100 + surprised e / 180) + (happy e - sad e) / 400))
         \<and> 0 \<le> mouthOpen level e \<and> mouthOpen level e \<le> 1"
  by (simp add: mouthOpen_def mouthOpenBase_def clamp01_def)

text \<open>
  The boundary combination of the specification: audio level 1, surprised 100, happy 0,
  sad 100. The value there is 43/45.
\<close>

theorem mouthOpen_formula_in_unit_interval_witness:
  "mouthOpen 1 \<lparr>happy = 0, sad = 100, angry = 0, surprised = 100, neutral = 0\<rparr> = 43 / 45
   \<and> 0 \<le> mouthOpen 1 \<lparr>happy = 0, sad = 100, angry = 0, surprised = 100, neutral = 0\<rparr>
   \<and> mouthOpen 1 \<lparr>happy = 0, sad = 100, angry = 0, surprised = 100, neutral = 0\<rparr> \<le> 1"
  using mouthOpen_formula_in_unit_interval
    [of 1 "\<lparr>happy = 0, sad = 100, angry = 0, surprised = 100, neutral = 0\<rparr>"]
  by simp

subsection \<open>Blink state machine\<close>

lemma blinkAdvance_range:
  "0 \<le> openness b \<Longrightarrow> openness b \<le> 1 \<Longrightarrow>
   0 \<le> openness (blinkAdvance b) \<and> openness (blinkAdvance b) \<le> 1"
  by (simp add: blinkAdvance_def Let_def)

lemma blinkTimer_openness: "openness (blinkStateRef (blinkTimer f s)) = openness (blinkStateRef s)"
  by (simp add: blinkTimer_def Let_def)

lemma render_range:
  "0 \<le> openness (blinkStateRef s) \<Longrightarrow> openness (blinkStateRef s) \<le> 1 \<Longrightarrow>
   0 \<le> openness (blinkStateRef (render f s)) \<and> openness (blinkStateRef (render f s)) \<le> 1"
  using blinkAdvance_range [of "blinkStateRef (blinkTimer f s)"]
  by (simp add: render_def Let_def blinkTimer_openness)

lemma renderFrames_range:
  "0 \<le> openness (blinkStateRef s) \<Longrightarrow> openness (blinkStateRef s) \<le> 1 \<Longrightarrow>
   0 \<le> openness (blinkStateRef (renderFrames fs s))
   \<and> openness (blinkStateRef (renderFrames fs s)) \<le> 1"
proof (induction fs arbitrary: s)
  case Nil
  then show ?case by simp
next
  case (Cons f fs)
  from render_range [OF Cons.prems] show ?case
    by (simp add: Cons.IH)
qed

text \<open>
  C5. From any blink state whose openness is in [0,1], whatever its phase, its target and
  the timer, the openness is in [0,1] after any number of frames. A closing frame lowers
  the openness by 0.15 and stops at 0; an opening frame raises it by 0.12 and stops at 1.
\<close>

theorem blink_openness_in_unit_interval:
  assumes "0 \<le> openness (blinkStateRef s)" and "openness (blinkStateRef s) \<le> 1"
  shows "0 \<le> openness (blinkStateRef (renderFrames fs s))
         \<and> openness (blinkStateRef (renderFrames fs s)) \<le> 1
         \<and> openness (blinkAdvance (blinkStateRef s)) =
             (if closing (blinkStateRef s) then max 0 (openness (blinkStateRef s) - 15 / 100)
              else if openness (blinkStateRef s) < target (blinkStateRef s)
                   then min 1 (openness (blinkStateRef s) + 12 / 100)
              else openness (blinkStateRef s))"
  using renderFrames_range [OF assms, of fs]
  by (simp add: blinkAdvance_def Let_def)

text \<open>
  A session that starts with open eyes: the timer fires in the first frame (5000 ms have
  passed, the drawn delay is 3800 ms), and the eyelid closes over the next frames.
\<close>

theorem blink_openness_in_unit_interval_witness:
  "0 \<le> openness (blinkStateRef \<lparr>blinkStateRef = blinkInitial, lastBlinkTime = 0\<rparr>)
   \<and> openness (blinkStateRef \<lparr>blinkStateRef = blinkInitial, lastBlinkTime = 0\<rparr>) \<le> 1
   \<and> openness (blinkStateRef (renderFrames
         [\<lparr>frame_now = 5000, frame_random = 1 / 2\<rparr>, \<lparr>frame_now = 5016, frame_random = 1 / 2\<rparr>]
         \<lparr>blinkStateRef = blinkInitial, lastBlinkTime = 0\<rparr>)) = 7 / 10
   \<and> 0 \<le> openness (blinkStateRef (renderFrames
         [\<lparr>frame_now = 5000, frame_random = 1 / 2\<rparr>, \<lparr>frame_now = 5016, frame_random = 1 / 2\<rparr>]
         \<lparr>blinkStateRef = blinkInitial, lastBlinkTime = 0\<rparr>))
   \<and> openness (blinkStateRef (renderFrames
         [\<lparr>frame_now = 5000, frame_random = 1 / 2\<rparr>, \<lparr>frame_now = 5016, frame_random = 1 / 2\<rparr>]
         \<lparr>blinkStateRef = blinkInitial, lastBlinkTime = 0\<rparr>)) \<le> 1"
  using blink_openness_in_unit_interval
    [of "\<lparr>blinkStateRef = blinkInitial, lastBlinkTime = 0\<rparr>"
        "[\<lparr>frame_now = 5000, frame_random = 1 / 2\<rparr>, \<lparr>frame_now = 5016, frame_random = 1 / 2\<rparr>]"]
  by (simp add: blinkInitial_def render_def blinkTimer_def blinkAdvance_def Let_def)

subsection \<open>Transport controls\<close>

text \<open>
  C6. For NaN and for both infinities \<^verbatim>\<open>seek\<close> returns normally and changes nothing: the
  playback position, the error cell and the rest of the state are as before.
\<close>

theorem seek_non_finite_noop:
  "seek NaN s = Inr s \<and> seek PosInfinity s = Inr s \<and> seek NegInfinity s = Inr s"
  by (simp add: seek_def)

text \<open>An element that plays at 3.5 s: the three calls leave it there; a finite value moves it.\<close>

theorem seek_non_finite_noop_witness:
  "seek NaN \<lparr>audioLevel = 0, isPlaying = True, duration = 10, currentTime = 7 / 2, error = None,
             sourceMeta = None,
             audioElementRef = Some \<lparr>el_src = Some ''blob:a'', el_paused = False, el_currentTime = 7 / 2\<rparr>,
             sourceNodeRef = None, animationFrameRef = 0, pendingFrames = []\<rparr>
   = Inr \<lparr>audioLevel = 0, isPlaying = True, duration = 10, currentTime = 7 / 2, error = None,
          sourceMeta = None,
          audioElementRef = Some \<lparr>el_src = Some ''blob:a'', el_paused = False, el_currentTime = 7 / 2\<rparr>,
          sourceNodeRef = None, animationFrameRef = 0, pendingFrames = []\<rparr>
   \<and> seek (Finite 2) \<lparr>audioLevel = 0, isPlaying = True, duration = 10, currentTime = 7 / 2, error = None,
             sourceMeta = None,
             audioElementRef = Some \<lparr>el_src = Some ''blob:a'', el_paused = False, el_currentTime = 7 / 2\<rparr>,
             sourceNodeRef = None, animationFrameRef = 0, pendingFrames = []\<rparr>
   = Inr \<lparr>audioLevel = 0, isPlaying = True, duration = 10, currentTime = 7 / 2, error = None,
          sourceMeta = None,
          audioElementRef = Some \<lparr>el_src = Some ''blob:a'', el_paused = False, el_currentTime = 2\<rparr>,
          sourceNodeRef = None, animationFrameRef = 0, pendingFrames = []\<rparr>"
  using seek_non_finite_noop
    [of "\<lparr>audioLevel = 0, isPlaying = True, duration = 10, currentTime = 7 / 2, error = None,
          sourceMeta = None,
          audioElementRef = Some \<lparr>el_src = Some ''blob:a'', el_paused = False, el_currentTime = 7 / 2\<rparr>,
          sourceNodeRef = None, animationFrameRef = 0, pendingFrames = []\<rparr>"]
  by (simp add: seek_def)

subsection \<open>Release\<close>

text \<open>
  C9. \<^verbatim>\<open>release\<close> is idempotent: a second call in succession returns the state the first
  one left, and after each call there is no source metadata, no source node, no registered
  analysis callback (the handle is 0 and the callback it named is cancelled), and the
  audio level is 0. No step of it can throw.
\<close>

theorem release_idempotent_empty:
  "release (release s) = release s
   \<and> sourceMeta (release s) = None
   \<and> sourceNodeRef (release s) = None
   \<and> animationFrameRef (release s) = 0
   \<and> (animationFrameRef s \<noteq> 0 \<longrightarrow> animationFrameRef s \<notin> set (pendingFrames (release s)))
   \<and> audioLevel (release s) = 0"
  by (cases "audioElementRef s"; cases "sourceNodeRef s")
     (simp_all add: release_def cleanupSource_def cancelAnimationFrame_def
        load_def removeAttribute_src_def pause_def Let_def)

lemma release_playingEngine: "release playingEngine = releasedEngine"
  by (simp add: playingEngine_def releasedEngine_def release_def cleanupSource_def
      cancelAnimationFrame_def load_def removeAttribute_src_def pause_def Let_def)

text \<open>Releasing the playing pipeline empties it, and a second call leaves the same state.\<close>

theorem release_idempotent_empty_witness:
  "release playingEngine = releasedEngine
   \<and> release (release playingEngine) = releasedEngine
   \<and> animationFrameRef playingEngine \<noteq> 0
   \<and> animationFrameRef playingEngine \<notin> set (pendingFrames (release playingEngine))"
  using release_idempotent_empty [of playingEngine]
  by (simp add: release_playingEngine) (simp add: playingEngine_def)

subsection \<open>Recording\<close>

text \<open>
  C7. A call of \<^verbatim>\<open>startRecording\<close> while a recorder is active reports an error and keeps
  the recorder reference. With the canvas in place the error is "Recording already in
  progress.", and nothing else changes: the recorder's own state, the chunks and the
  download cells are as before.
\<close>

theorem startRecording_already_recording:
  assumes "recorderRef s = Some r"
  shows "recorderRef (startRecording env mimeType s) = Some r
         \<and> status (startRecording env mimeType s) = Error
         \<and> (env_canvas env = Some canvasStream \<longrightarrow>
              startRecording env mimeType s
                = s\<lparr>status := Error, message := Some ''Recording already in progress.''\<rparr>)"
  using assms by (cases "env_canvas env") (simp_all add: startRecording_def)

lemma startRecording_first_call:
  "startRecording webmEnv ''video/mp4;codecs=h264,aac'' exportInitial = recordingPanel"
  by (simp add: startRecording_def webmEnv_def exportInitial_def recordingPanel_def
      getVideoTracks_def getAudioTracks_def Let_def)

text \<open>
  Two calls with no stop between them: the first starts the recorder, the second reports
  the error and keeps the recorder of the first.
\<close>

theorem startRecording_already_recording_witness:
  "env_canvas webmEnv = Some [VideoTrack 1]
   \<and> recorderRef (startRecording webmEnv ''video/mp4;codecs=h264,aac'' exportInitial)
       = Some \<lparr>rec_stream = [VideoTrack 1, AudioTrack 2], rec_mimeType = ''video/webm'',
                rec_videoBitsPerSecond = 5000000, rec_state = active\<rparr>
   \<and> startRecording webmEnv ''video/webm;codecs=vp9,opus''
         (startRecording webmEnv ''video/mp4;codecs=h264,aac'' exportInitial)
       = recordingPanel\<lparr>status := Error, message := Some ''Recording already in progress.''\<rparr>
   \<and> recorderRef (startRecording webmEnv ''video/webm;codecs=vp9,opus''
         (startRecording webmEnv ''video/mp4;codecs=h264,aac'' exportInitial))
       = Some \<lparr>rec_stream = [VideoTrack 1, AudioTrack 2], rec_mimeType = ''video/webm'',
                rec_videoBitsPerSecond = 5000000, rec_state = active\<rparr>"
proof -
  have c: "env_canvas webmEnv = Some [VideoTrack 1]"
    by (simp add: webmEnv_def)
  have r: "recorderRef (startRecording webmEnv ''video/mp4;codecs=h264,aac'' exportInitial)
       = Some \<lparr>rec_stream = [VideoTrack 1, AudioTrack 2], rec_mimeType = ''video/webm'',
                rec_videoBitsPerSecond = 5000000, rec_state = active\<rparr>"
    by (simp add: startRecording_first_call) (simp add: recordingPanel_def)
  from startRecording_already_recording
         [OF r, of webmEnv "''video/webm;codecs=vp9,opus''" "[VideoTrack 1]"] c r
  show ?thesis
    by (simp add: startRecording_first_call)
qed

subsection \<open>Double-precision arithmetic\<close>

lemma two_powr_int: "2 powr real_of_int e = (2::real) powi e"
  by (simp add: powr_real_of_int')

lemma binexp_eqI:
  assumes "2 powi e \<le> \<bar>x\<bar>" and "\<bar>x\<bar> < 2 powi (e + 1)"
  shows "binexp x = e"
proof -
  have "(0::real) < 2 powi e"
    by (rule zero_less_power_int) simp
  with assms(1) have pos: "0 < \<bar>x\<bar>"
    by linarith
  have "2 powr real_of_int e \<le> \<bar>x\<bar>"
    using assms(1) by (simp only: two_powr_int)
  then have "real_of_int e \<le> log 2 \<bar>x\<bar>"
    using pos by (simp add: le_log_iff)
  moreover have "\<bar>x\<bar> < 2 powr real_of_int (e + 1)"
    using assms(2) by (simp only: two_powr_int)
  then have "log 2 \<bar>x\<bar> < real_of_int (e + 1)"
    using pos by (simp add: log_less_iff)
  ultimately show ?thesis
    unfolding binexp_def by (simp add: floor_eq_iff)
qed

lemma binexp_bounds:
  assumes "x \<noteq> 0"
  shows "2 powi binexp x \<le> \<bar>x\<bar>"
proof -
  have pos: "0 < \<bar>x\<bar>" using assms by simp
  have "real_of_int (binexp x) \<le> log 2 \<bar>x\<bar>"
    unfolding binexp_def by simp
  then have "2 powr real_of_int (binexp x) \<le> \<bar>x\<bar>"
    using pos by (simp add: le_log_iff)
  then show ?thesis
    by (simp only: two_powr_int)
qed

lemma roundTiesToEven_error: "\<bar>real_of_int (roundTiesToEven y) - y\<bar> \<le> 1 / 2"
  unfolding roundTiesToEven_def Let_def
  by (auto simp: abs_le_iff)

lemma toDouble_error:
  "\<bar>toDouble x - x\<bar> \<le> \<bar>x\<bar> / 2 ^ 53"
proof (cases "x = 0")
  case True
  then show ?thesis by (simp add: toDouble_def)
next
  case False
  define u :: real where "u = 2 powi (binexp x - 52)"
  have u: "0 < u"
    unfolding u_def by (rule zero_less_power_int) simp
  have t: "toDouble x = of_int (roundTiesToEven (x / u)) * u"
    using False by (simp add: toDouble_def u_def)
  have "toDouble x - x = (of_int (roundTiesToEven (x / u)) - x / u) * u"
    using u by (simp add: t field_simps)
  then have "\<bar>toDouble x - x\<bar> = \<bar>of_int (roundTiesToEven (x / u)) - x / u\<bar> * u"
    using u by (simp add: abs_mult)
  also have "\<dots> \<le> 1 / 2 * u"
    using roundTiesToEven_error [of "x / u"] u by (intro mult_right_mono) simp_all
  also have "1 / 2 * u = 2 powi binexp x / 2 ^ 53"
    unfolding u_def by (simp add: power_int_diff)
  also have "\<dots> \<le> \<bar>x\<bar> / 2 ^ 53"
    using binexp_bounds [OF False] by (simp add: divide_right_mono)
  finally show ?thesis .
qed

lemma toDouble_bounds:
  assumes "0 \<le> x"
  shows "x * (1 - 1 / 2 ^ 53) \<le> toDouble x \<and> toDouble x \<le> x * (1 + 1 / 2 ^ 53)"
proof -
  define d where "d = x / 2 ^ 53"
  have e: "\<bar>toDouble x - x\<bar> \<le> d"
    using toDouble_error [of x] assms by (simp add: d_def)
  then have b: "x - d \<le> toDouble x \<and> toDouble x \<le> x + d"
    unfolding abs_le_iff by linarith
  have "x * (1 - 1 / 2 ^ 53) = x - d" and "x * (1 + 1 / 2 ^ 53) = x + d"
    by (simp_all add: algebra_simps d_def)
  with b show ?thesis
    by (simp only:)
qed

lemma toDouble_eval:
  assumes "2 powi e \<le> \<bar>x\<bar>" and "\<bar>x\<bar> < 2 powi (e + 1)"
  shows "toDouble x = of_int (roundTiesToEven (x / 2 powi (e - 52))) * 2 powi (e - 52)"
proof -
  have "(0::real) < 2 powi e"
    by (rule zero_less_power_int) simp
  with assms(1) have "0 < \<bar>x\<bar>"
    by linarith
  then have "x \<noteq> 0"
    by simp
  then show ?thesis
    by (simp add: toDouble_def binexp_eqI [OF assms])
qed

lemmas toDouble_evals =
  toDouble_eval [where e = "- 7"] toDouble_eval [where e = "- 5"] toDouble_eval [where e = "- 4"]
  toDouble_eval [where e = "- 3"] toDouble_eval [where e = "- 1"] toDouble_eval [where e = 0]
  toDouble_eval [where e = 2] toDouble_eval [where e = 9] toDouble_eval [where e = 11]
  toDouble_eval [where e = 15] toDouble_eval [where e = 18]

lemma toDouble_interval:
  assumes "0 \<le> x" and "0 \<le> l" and "x * l \<le> y" and "y \<le> x * h"
  shows "x * (l * (1 - 1 / 2 ^ 53)) \<le> toDouble y \<and> toDouble y \<le> x * (h * (1 + 1 / 2 ^ 53))"
proof -
  have y: "0 \<le> y"
    using assms(1,2,3) by (meson mult_nonneg_nonneg order_trans)
  have lo: "(0::real) \<le> 1 - 1 / 2 ^ 53" and hi: "(0::real) \<le> 1 + 1 / 2 ^ 53"
    by simp_all
  have "x * l * (1 - 1 / 2 ^ 53) \<le> y * (1 - 1 / 2 ^ 53)"
    using assms(3) lo by (rule mult_right_mono)
  moreover have "y * (1 + 1 / 2 ^ 53) \<le> x * h * (1 + 1 / 2 ^ 53)"
    using assms(4) hi by (rule mult_right_mono)
  ultimately show ?thesis
    using toDouble_bounds [OF y] by (simp only: mult.assoc) linarith
qed

lemma duration_enclosure:
  fixes a m b r n v :: real
  assumes nn: "0 \<le> a" "0 \<le> m" "0 \<le> b" "0 \<le> r" "0 \<le> n" "0 \<le> v"
  defines "E \<equiv> max (a * n) m + b * v"
  defines "D \<equiv> toDouble (max (toDouble (n * toDouble a)) (toDouble m) + toDouble (v * toDouble b))"
  shows "E * (1 - 1 / 2 ^ 51) \<le> D \<and> D \<le> E * (1 + 1 / 2 ^ 51)
         \<and> r * E * (1 - 1 / 2 ^ 51) \<le> toDouble (r * D)
         \<and> toDouble (r * D) \<le> r * E * (1 + 1 / 2 ^ 50)"
proof -
  define lo hi :: real where "lo = 1 - 1 / 2 ^ 53" and "hi = 1 + 1 / 2 ^ 53"
  have lo: "0 \<le> lo" "lo \<le> 1" and hi: "1 \<le> hi" "0 \<le> hi"
    by (simp_all add: lo_def hi_def)
  have lo2: "lo * lo \<le> lo" "0 \<le> lo * lo"
    using lo by (simp_all add: mult_left_le)
  have hi2: "hi \<le> hi * hi" "0 \<le> hi * hi"
    using hi by simp_all
  note step = toDouble_interval [folded lo_def hi_def]
  note const = toDouble_bounds [folded lo_def hi_def]
  define A where "A = a * n"
  define B where "B = b * v"
  define M where "M = max A m"
  have nn': "0 \<le> A" "0 \<le> B" "0 \<le> M"
    using nn by (simp_all add: A_def B_def M_def max_def)
  have E: "E = M + B"
    by (simp add: E_def M_def A_def B_def)
  \<comment> \<open>the products\<close>
  have "n * (a * lo) \<le> n * toDouble a" and "n * toDouble a \<le> n * (a * hi)"
    using const [OF nn(1)] nn(5) by (simp_all add: mult_left_mono)
  then have "A * lo \<le> n * toDouble a" and "n * toDouble a \<le> A * hi"
    by (simp_all add: A_def mult_ac)
  from step [OF nn'(1) lo(1) this]
  have pa: "A * (lo * lo) \<le> toDouble (n * toDouble a)" "toDouble (n * toDouble a) \<le> A * (hi * hi)"
    by simp_all
  have "v * (b * lo) \<le> v * toDouble b" and "v * toDouble b \<le> v * (b * hi)"
    using const [OF nn(3)] nn(6) by (simp_all add: mult_left_mono)
  then have "B * lo \<le> v * toDouble b" and "v * toDouble b \<le> B * hi"
    by (simp_all add: B_def mult_ac)
  from step [OF nn'(2) lo(1) this]
  have pb: "B * (lo * lo) \<le> toDouble (v * toDouble b)" "toDouble (v * toDouble b) \<le> B * (hi * hi)"
    by simp_all
  \<comment> \<open>the maximum\<close>
  have "m * (lo * lo) \<le> m * lo" and "m * hi \<le> m * (hi * hi)"
    using lo2 hi2 nn(2) by (simp_all add: mult_left_mono)
  with const [OF nn(2)] have pm: "m * (lo * lo) \<le> toDouble m" "toDouble m \<le> m * (hi * hi)"
    by linarith+
  have ml: "M * (lo * lo) = max (A * (lo * lo)) (m * (lo * lo))"
    unfolding M_def using lo2(2) by (simp add: max_mult_distrib_right)
  have mh: "M * (hi * hi) = max (A * (hi * hi)) (m * (hi * hi))"
    unfolding M_def using hi2(2) by (simp add: max_mult_distrib_right)
  have mx: "M * (lo * lo) \<le> max (toDouble (n * toDouble a)) (toDouble m)"
    "max (toDouble (n * toDouble a)) (toDouble m) \<le> M * (hi * hi)"
    unfolding ml mh using pa pm by (auto simp: max_def)
  \<comment> \<open>the sum and the duration\<close>
  define S where "S = max (toDouble (n * toDouble a)) (toDouble m) + toDouble (v * toDouble b)"
  have s: "E * (lo * lo) \<le> S" "S \<le> E * (hi * hi)"
    using add_mono [OF mx(1) pb(1)] add_mono [OF mx(2) pb(2)]
    by (simp_all only: S_def E distrib_right)
  have En: "0 \<le> E"
    using nn' by (simp add: E)
  have D: "D = toDouble S"
    by (simp add: D_def S_def)
  from step [OF En lo2(2) s]
  have d: "E * (lo * lo * lo) \<le> D" "D \<le> E * (hi * hi * hi)"
    by (simp_all add: D)
  have "r * (E * (lo * lo * lo)) \<le> r * D" and "r * D \<le> r * (E * (hi * hi * hi))"
    using d nn(4) by (simp_all add: mult_left_mono)
  then have k: "r * E * (lo * lo * lo) \<le> r * D" "r * D \<le> r * E * (hi * hi * hi)"
    by (simp_all add: mult.assoc)
  have Kn: "0 \<le> r * E" and l3: "0 \<le> lo * lo * lo"
    using En lo nn(4) by simp_all
  from step [OF Kn l3 k]
  have x: "r * E * (lo * lo * lo * lo) \<le> toDouble (r * D)"
    "toDouble (r * D) \<le> r * E * (hi * hi * hi * hi)"
    by simp_all
  \<comment> \<open>the numbers\<close>
  have n3: "1 - 1 / 2 ^ 51 \<le> lo * lo * lo" "hi * hi * hi \<le> 1 + 1 / 2 ^ 51"
    and n4: "1 - 1 / 2 ^ 51 \<le> lo * lo * lo * lo" "hi * hi * hi * hi \<le> 1 + 1 / 2 ^ 50"
    by (simp_all add: lo_def hi_def)
  have "E * (1 - 1 / 2 ^ 51) \<le> D"
    by (rule order_trans [OF mult_left_mono [OF n3(1) En] d(1)])
  moreover have "D \<le> E * (1 + 1 / 2 ^ 51)"
    by (rule order_trans [OF d(2) mult_left_mono [OF n3(2) En]])
  moreover have "r * E * (1 - 1 / 2 ^ 51) \<le> toDouble (r * D)"
    by (rule order_trans [OF mult_left_mono [OF n4(1) Kn] x(1)])
  moreover have "toDouble (r * D) \<le> r * E * (1 + 1 / 2 ^ 50)"
    by (rule order_trans [OF x(2) mult_left_mono [OF n4(2) Kn]])
  ultimately show ?thesis
    by blast
qed


subsection \<open>Synthesizer: the sample buffer\<close>

lemma burstLength_cases: "burstLength ch = (if ch = 0x20 then 3840 else 2880)"
  by (simp add: burstLength_def phonemeDuration_def sampleRate_def toDouble_evals
      roundTiesToEven_def power_int_minus)

lemma overlap_samples: "\<lfloor>toDouble (real sampleRate * toDouble 0.015)\<rfloor> = 720"
  by (simp add: sampleRate_def toDouble_evals roundTiesToEven_def power_int_minus)

lemma addSample_length [simp]: "length (samples (addSample i v b)) = length (samples b)"
  by (simp add: addSample_def)

lemma addSample_stores [simp]: "stores (addSample i v b) = stores b @ [i]"
  by (simp add: addSample_def)

lemma burstLoop_step:
  "n < len \<Longrightarrow> position + int n < int (length (samples b)) \<Longrightarrow>
   burstLoop freq len position n b
     = burstLoop freq len position (n + 1) (addSample (position + int n) (burstSample freq len n) b)"
  by (subst burstLoop.simps) simp

lemma burstLoop_stop:
  "\<not> (n < len \<and> position + int n < int (length (samples b))) \<Longrightarrow>
   burstLoop freq len position n b = b"
  by (subst burstLoop.simps) (simp only: if_False)

lemma burstLoop_length: "length (samples (burstLoop freq len position n b)) = length (samples b)"
proof (induction freq len position n b rule: burstLoop.induct)
  case (1 freq len position n b)
  show ?case
  proof (cases "n < len \<and> position + int n < int (length (samples b))")
    case True
    then have "burstLoop freq len position n b
        = burstLoop freq len position (n + 1) (addSample (position + int n) (burstSample freq len n) b)"
      by (simp only: burstLoop_step)
    with "1.IH" [OF True] show ?thesis
      by simp
  next
    case False
    from burstLoop_stop [OF False] show ?thesis
      by simp
  qed
qed

lemma burstLoop_stores_in_bounds:
  assumes "0 \<le> position"
    and "\<forall>i \<in> set (stores b). 0 \<le> i \<and> i < int (length (samples b))"
  shows "\<forall>i \<in> set (stores (burstLoop freq len position n b)). 0 \<le> i \<and> i < int (length (samples b))"
  using assms
proof (induction freq len position n b rule: burstLoop.induct)
  case (1 freq len position n b)
  show ?case
  proof (cases "n < len \<and> position + int n < int (length (samples b))")
    case True
    let ?b1 = "addSample (position + int n) (burstSample freq len n) b"
    have eq: "burstLoop freq len position n b = burstLoop freq len position (n + 1) ?b1"
      using True by (simp only: burstLoop_step)
    have "\<forall>i \<in> set (stores ?b1). 0 \<le> i \<and> i < int (length (samples ?b1))"
      using True "1.prems" by auto
    from "1.IH" [OF True "1.prems"(1) this] show ?thesis
      by (simp add: eq)
  next
    case False
    from burstLoop_stop [OF False] "1.prems" show ?thesis
      by simp
  qed
qed

lemma burstLoop_stores_mono: "set (stores b) \<subseteq> set (stores (burstLoop freq len position n b))"
proof (induction freq len position n b rule: burstLoop.induct)
  case (1 freq len position n b)
  show ?case
  proof (cases "n < len \<and> position + int n < int (length (samples b))")
    case True
    let ?b1 = "addSample (position + int n) (burstSample freq len n) b"
    have eq: "burstLoop freq len position n b = burstLoop freq len position (n + 1) ?b1"
      using True by (simp only: burstLoop_step)
    from "1.IH" [OF True] show ?thesis
      by (auto simp: eq)
  next
    case False
    from burstLoop_stop [OF False] show ?thesis
      by simp
  qed
qed

lemma burstLoop_first_store:
  assumes "0 < len" and "position < int (length (samples b))"
  shows "position \<in> set (stores (burstLoop freq len position 0 b))"
proof -
  have "position \<in> set (stores (addSample position (burstSample freq len 0) b))"
    by simp
  with burstLoop_stores_mono [of "addSample position (burstSample freq len 0) b" freq len position 1]
  have "position \<in> set (stores (burstLoop freq len position 1
                                   (addSample position (burstSample freq len 0) b)))"
    by blast
  with assms show ?thesis
    by (simp add: burstLoop_step)
qed

lemma phonemeLoop_length: "length (samples (phonemeLoop ps position b)) = length (samples b)"
  by (induction ps arbitrary: position b) (simp_all add: Let_def burstLoop_length)

lemma phonemeLoop_stores_in_bounds:
  assumes "0 \<le> position"
    and "\<forall>i \<in> set (stores b). 0 \<le> i \<and> i < int (length (samples b))"
  shows "\<forall>i \<in> set (stores (phonemeLoop ps position b)). 0 \<le> i \<and> i < int (length (samples b))"
  using assms
proof (induction ps arbitrary: position b)
  case Nil
  then show ?case by simp
next
  case (Cons ch rest)
  let ?b1 = "burstLoop (burstFreq ch) (burstLength ch) position 0 b"
  let ?p1 = "position + (int (burstLength ch) - \<lfloor>toDouble (real sampleRate * toDouble 0.015)\<rfloor>)"
  have p: "0 \<le> ?p1"
    using Cons.prems(1) unfolding overlap_samples by (simp add: burstLength_cases)
  have "\<forall>i \<in> set (stores ?b1). 0 \<le> i \<and> i < int (length (samples ?b1))"
    using burstLoop_stores_in_bounds [OF Cons.prems] by (simp add: burstLoop_length)
  from Cons.IH [OF p this] show ?case
    by (simp add: Let_def burstLoop_length)
qed

lemma phonemeLoop_stores_mono: "set (stores b) \<subseteq> set (stores (phonemeLoop ps position b))"
proof (induction ps arbitrary: position b)
  case Nil
  then show ?case by simp
next
  case (Cons ch rest)
  show ?case
    using burstLoop_stores_mono [of b "burstFreq ch" "burstLength ch" position 0]
      Cons.IH [of "burstLoop (burstFreq ch) (burstLength ch) position 0 b"]
    by (simp add: Let_def) blast
qed

lemma synthesizeSpeech_length:
  "length (speech_samples (synthesizeSpeech text)) = bufferLength text"
  by (simp add: synthesizeSpeech_def Let_def phonemeLoop_length)

lemma synthesizeSpeech_in_bounds:
  "\<forall>i \<in> set (speech_stores (synthesizeSpeech text)).
     0 \<le> i \<and> i < int (length (speech_samples (synthesizeSpeech text)))"
  using phonemeLoop_stores_in_bounds
    [of 0 "\<lparr>samples = replicate (bufferLength text) 0, stores = []\<rparr>" "phonemes text"]
  by (simp add: synthesizeSpeech_def Let_def phonemeLoop_length)

lemma phonemes_a: "phonemes [0x61] = [0x61]"
  by (simp add: phonemes_def isLetterOrSpace_def)

lemma words_a: "words [0x61] = [[0x61]]"
  by (simp add: words_def isWhiteSpace_def)

lemma bufferLength_a: "bufferLength [0x61] = 47040"
  by (simp add: bufferLength_def fullDuration_def baseDuration_def sampleRate_def
      phonemes_a words_a toDouble_evals roundTiesToEven_def power_int_minus)

lemma first_store_a: "0 \<in> set (speech_stores (synthesizeSpeech [0x61]))"
  using burstLoop_first_store
    [of "burstLength 0x61" 0 "\<lparr>samples = replicate (bufferLength [0x61]) 0, stores = []\<rparr>"
        "burstFreq 0x61"]
  by (simp add: synthesizeSpeech_def Let_def phonemes_a bufferLength_a burstLength_cases)

lemma phonemes_seventeen: "phonemes seventeenLetters = seventeenLetters"
  by (simp add: phonemes_def isLetterOrSpace_def seventeenLetters_def)

lemma words_seventeen: "words seventeenLetters = [seventeenLetters]"
  by (simp add: words_def isWhiteSpace_def seventeenLetters_def)

lemma bufferLength_seventeen: "bufferLength seventeenLetters = 48720"
  by (simp add: bufferLength_def fullDuration_def baseDuration_def sampleRate_def
      phonemes_seventeen words_seventeen)
     (simp add: seventeenLetters_def toDouble_evals roundTiesToEven_def power_int_minus)

lemma burstLengths_seventeen: "sum_list (map burstLength (phonemes seventeenLetters)) = 48960"
  by (simp add: phonemes_seventeen) (simp add: seventeenLetters_def burstLength_cases)

text \<open>
  C10. For every text, each index that the sample loop of \<^verbatim>\<open>synthesizeSpeech\<close> assigns to
  lies inside the buffer, whose length is the one computed from the total duration. The
  guard is needed: for a word of seventeen letters the burst lengths add up to 48960
  samples, more than the 48720 of the buffer.
\<close>

theorem synthesizeSpeech_stores_in_bounds:
  "(\<forall>i \<in> set (speech_stores (synthesizeSpeech text)).
      0 \<le> i \<and> i < int (length (speech_samples (synthesizeSpeech text))))
   \<and> length (speech_samples (synthesizeSpeech text)) = bufferLength text
   \<and> bufferLength seventeenLetters < sum_list (map burstLength (phonemes seventeenLetters))"
  using synthesizeSpeech_in_bounds [of "text"]
  by (simp add: synthesizeSpeech_length bufferLength_seventeen burstLengths_seventeen)

text \<open>The text "a": index 0 is assigned, and the buffer has 47040 samples.\<close>

theorem synthesizeSpeech_stores_in_bounds_witness:
  "0 \<in> set (speech_stores (synthesizeSpeech [0x61]))
   \<and> (0::int) < int (length (speech_samples (synthesizeSpeech [0x61])))
   \<and> length (speech_samples (synthesizeSpeech [0x61])) = 47040"
  using synthesizeSpeech_stores_in_bounds [of "[0x61]"] first_store_a
  by (auto simp: bufferLength_a)

subsection \<open>Synthesizer: duration\<close>

lemmas double_eval = toDouble_evals roundTiesToEven_def power_int_minus

lemma phonemes_Hi: "phonemes [0x48, 0x69] = [0x48, 0x69]"
  by (simp add: phonemes_def isLetterOrSpace_def)

lemma words_Hi: "words [0x48, 0x69] = [[0x48, 0x69]]"
  by (simp add: words_def isWhiteSpace_def)

lemma length_phonemes_eighteen: "length (phonemes eighteenPhonemes) = 18"
  by (simp add: phonemes_def isLetterOrSpace_def eighteenPhonemes_def)

lemma length_words_eighteen: "length (words eighteenPhonemes) = 2"
  by (simp add: words_def isWhiteSpace_def eighteenPhonemes_def)

lemma length_phonemes_default: "length (phonemes defaultText) = 101"
  by (simp add: phonemes_def isLetterOrSpace_def defaultText_def)

lemma length_words_default: "length (words defaultText) = 18"
  by (simp add: words_def isWhiteSpace_def defaultText_def)

lemma fullDuration_Hi: "fullDuration [0x48, 0x69] = 2206763817411543 / 2 ^ 51"
  by (simp add: fullDuration_def baseDuration_def phonemes_Hi words_Hi double_eval)

lemma bufferLength_Hi: "bufferLength [0x48, 0x69] = 47040"
  by (simp add: bufferLength_def sampleRate_def fullDuration_Hi double_eval)

lemma fullDuration_eighteen: "fullDuration eighteenPhonemes = 2589569785738035 / 2 ^ 51"
  by (simp add: fullDuration_def baseDuration_def length_phonemes_eighteen length_words_eighteen
      double_eval)

lemma bufferLength_eighteen: "bufferLength eighteenPhonemes = 55199"
  by (simp add: bufferLength_def sampleRate_def fullDuration_eighteen double_eval)

lemma fullDuration_default: "fullDuration defaultText = 3937834924182077 / 2 ^ 49"
  by (simp add: fullDuration_def baseDuration_def length_phonemes_default length_words_default
      double_eval)

lemma bufferLength_default: "bufferLength defaultText = 335759"
  by (simp add: bufferLength_def sampleRate_def fullDuration_default double_eval)

lemma specDuration_Hi: "specDuration [0x48, 0x69] = 20 / 100"
  by (simp add: specDuration_def specPhonemeDuration_def phonemes_Hi words_Hi)

lemma specDuration_eighteen: "specDuration eighteenPhonemes = 126 / 100"
  by (simp add: specDuration_def length_words_eighteen)
     (simp add: phonemes_def isLetterOrSpace_def eighteenPhonemes_def specPhonemeDuration_def)

text \<open>
  The product 48000 * duration is the rounding of a value within a relative 2^-50 of a
  whole number of samples, so its floor is that number or one less.
\<close>

lemma floor_near_nat:
  fixes X :: real and K :: nat
  assumes "real K - 1 < X" and "X < real K + 1" and "0 < K"
  shows "nat \<lfloor>X\<rfloor> = K \<or> nat \<lfloor>X\<rfloor> + 1 = K"
proof (cases "real K \<le> X")
  case True
  with assms(2) have "\<lfloor>X\<rfloor> = int K"
    by (simp add: floor_eq_iff)
  then show ?thesis by simp
next
  case False
  with assms(1) have "\<lfloor>X\<rfloor> = int K - 1"
    by (simp add: floor_eq_iff)
  with assms(3) show ?thesis
    by (simp add: nat_diff_distrib)
qed

lemma bufferLength_near:
  fixes p w :: nat
  assumes "p < 4294967296" and "w < 4294967296"
  defines "D \<equiv> toDouble (max (toDouble (real p * toDouble (55 / 1000))) (toDouble (9 / 10))
                           + toDouble (real w * toDouble (8 / 100)))"
  shows "nat \<lfloor>toDouble (48000 * D)\<rfloor> = max (2640 * p) 43200 + 3840 * w
         \<or> nat \<lfloor>toDouble (48000 * D)\<rfloor> + 1 = max (2640 * p) 43200 + 3840 * w"
proof -
  define K :: nat where "K = max (2640 * p) 43200 + 3840 * w"
  define E :: real where "E = max (55 / 1000 * real p) (9 / 10) + 8 / 100 * real w"
  have KE: "48000 * E = real K"
    by (simp add: K_def E_def max_def)
  have Kpos: "0 < K" and Kbound: "real K < 2 ^ 45"
    using assms(1,2) by (simp_all add: K_def max_def)
  from duration_enclosure [of "55 / 1000" "9 / 10" "8 / 100" 48000 "real p" "real w"]
  have x: "real K * (1 - 1 / 2 ^ 51) \<le> toDouble (48000 * D)"
    "toDouble (48000 * D) \<le> real K * (1 + 1 / 2 ^ 50)"
    by (simp_all add: D_def KE [symmetric] E_def mult.commute)
  define t where "t = real K / 2 ^ 51"
  define t' where "t' = real K / 2 ^ 50"
  have t: "t < 1" "t' < 1"
    using Kbound by (simp_all add: t_def t'_def)
  have "real K * (1 - 1 / 2 ^ 51) = real K - t" and "real K * (1 + 1 / 2 ^ 50) = real K + t'"
    by (simp_all add: t_def t'_def algebra_simps)
  with x have "real K - t \<le> toDouble (48000 * D)" and "toDouble (48000 * D) \<le> real K + t'"
    by (simp_all only:)
  with t have "real K - 1 < toDouble (48000 * D)" and "toDouble (48000 * D) < real K + 1"
    by linarith+
  from floor_near_nat [OF this Kpos] show ?thesis
    by (simp only: K_def)
qed

lemma duration_error:
  fixes p w :: nat
  defines "E \<equiv> max (55 / 1000 * real p) (9 / 10) + 8 / 100 * real w"
  defines "D \<equiv> toDouble (max (toDouble (real p * toDouble (55 / 1000))) (toDouble (9 / 10))
                           + toDouble (real w * toDouble (8 / 100)))"
  shows "\<bar>D - E\<bar> \<le> E / 2 ^ 51"
proof -
  from duration_enclosure [of "55 / 1000" "9 / 10" "8 / 100" 48000 "real p" "real w"]
  have e: "E * (1 - 1 / 2 ^ 51) \<le> D" "D \<le> E * (1 + 1 / 2 ^ 51)"
    by (simp_all add: D_def E_def mult.commute)
  define t where "t = E / 2 ^ 51"
  have "E * (1 - 1 / 2 ^ 51) = E - t" and "E * (1 + 1 / 2 ^ 51) = E + t"
    by (simp_all add: t_def algebra_simps)
  with e have "E - t \<le> D" and "D \<le> E + t"
    by (simp_all only:)
  then show ?thesis
    unfolding t_def [symmetric] by linarith
qed

lemma speech_duration_eq:
  "speech_duration (synthesizeSpeech text)
     = toDouble (max (toDouble (real (length (phonemes text)) * toDouble (55 / 1000)))
                     (toDouble (9 / 10))
                 + toDouble (real (length (words text)) * toDouble (8 / 100)))"
  by (simp add: synthesizeSpeech_def Let_def fullDuration_def baseDuration_def)

lemma speech_samples_eq:
  "length (speech_samples (synthesizeSpeech text))
     = nat \<lfloor>toDouble (48000 * speech_duration (synthesizeSpeech text))\<rfloor>"
  by (simp add: synthesizeSpeech_length bufferLength_def sampleRate_def)
     (simp add: synthesizeSpeech_def Let_def)

text \<open>
  C2, as the code has it. For a text with fewer than 2^32 phonemes and fewer than 2^32
  words, the duration that \<^verbatim>\<open>synthesizeSpeech\<close> returns is
  max(0.055 * phonemes, 0.9) + 0.08 * words evaluated in double precision, each product
  and the sum rounded, and it lies within a relative 2^-51 of the exact value, where the
  phonemes are the letters and spaces of the text and the words its pieces between white
  space. The buffer holds the floor of the double product 48000 * duration, which is
  max(2640 * phonemes, 43200) + 3840 * words samples or one sample less. A burst lasts the
  double nearest 0.08 s (3840 samples) for a space and the double nearest 0.06 s (2880
  samples) for a letter; the floor of 0.04 s never applies, and the burst durations do not
  enter the total.
\<close>

theorem synthesizeSpeech_duration:
  assumes "length (phonemes text) < 4294967296" and "length (words text) < 4294967296"
  shows "speech_duration (synthesizeSpeech text)
           = toDouble (max (toDouble (real (length (phonemes text)) * toDouble (55 / 1000)))
                           (toDouble (9 / 10))
                       + toDouble (real (length (words text)) * toDouble (8 / 100)))
         \<and> \<bar>speech_duration (synthesizeSpeech text)
              - (max (55 / 1000 * real (length (phonemes text))) (9 / 10)
                 + 8 / 100 * real (length (words text)))\<bar>
             \<le> (max (55 / 1000 * real (length (phonemes text))) (9 / 10)
                 + 8 / 100 * real (length (words text))) / 2 ^ 51
         \<and> length (speech_samples (synthesizeSpeech text))
             = nat \<lfloor>toDouble (48000 * speech_duration (synthesizeSpeech text))\<rfloor>
         \<and> (length (speech_samples (synthesizeSpeech text))
               = max (2640 * length (phonemes text)) 43200 + 3840 * length (words text)
             \<or> length (speech_samples (synthesizeSpeech text)) + 1
               = max (2640 * length (phonemes text)) 43200 + 3840 * length (words text))
         \<and> phonemeDuration ch = (if ch = 0x20 then toDouble (8 / 100) else toDouble (6 / 100))
         \<and> burstLength ch = (if ch = 0x20 then 3840 else 2880)"
proof -
  note d = speech_duration_eq [of "text"]
  have c2: "\<bar>speech_duration (synthesizeSpeech text)
              - (max (55 / 1000 * real (length (phonemes text))) (9 / 10)
                 + 8 / 100 * real (length (words text)))\<bar>
             \<le> (max (55 / 1000 * real (length (phonemes text))) (9 / 10)
                 + 8 / 100 * real (length (words text))) / 2 ^ 51"
    unfolding d by (rule duration_error)
  note c3 = speech_samples_eq [of "text"]
  have c4: "length (speech_samples (synthesizeSpeech text))
               = max (2640 * length (phonemes text)) 43200 + 3840 * length (words text)
             \<or> length (speech_samples (synthesizeSpeech text)) + 1
               = max (2640 * length (phonemes text)) 43200 + 3840 * length (words text)"
    unfolding c3 d by (rule bufferLength_near [OF assms])
  have c5: "phonemeDuration ch = (if ch = 0x20 then toDouble (8 / 100) else toDouble (6 / 100))"
    by (simp add: phonemeDuration_def double_eval)
  from d c2 c3 c4 c5 burstLength_cases [of ch] show ?thesis
    by blast
qed

text \<open>
  The text "abcdefgh ijklmnopq", 18 phonemes and 2 words: the duration is the double nearest
  to 1.15 and the buffer has 55199 samples, one less than 2640 * 18 + 3840 * 2. The default
  text of the page, 101 phonemes and 18 words: a double just below 6.995 (the code prints
  6.994999999999999), and 335759 samples.
\<close>

theorem synthesizeSpeech_duration_witness:
  "length (phonemes eighteenPhonemes) < 4294967296
   \<and> length (words eighteenPhonemes) < 4294967296
   \<and> speech_duration (synthesizeSpeech eighteenPhonemes) = 2589569785738035 / 2 ^ 51
   \<and> \<bar>2589569785738035 / 2 ^ 51 - 115 / 100 :: real\<bar> \<le> (115 / 100) / 2 ^ 51
   \<and> length (speech_samples (synthesizeSpeech eighteenPhonemes)) = 55199
   \<and> length (speech_samples (synthesizeSpeech eighteenPhonemes)) + 1
       = max (2640 * length (phonemes eighteenPhonemes)) 43200
         + 3840 * length (words eighteenPhonemes)
   \<and> speech_duration (synthesizeSpeech defaultText) = 3937834924182077 / 2 ^ 49
   \<and> length (speech_samples (synthesizeSpeech defaultText)) = 335759"
proof -
  have h: "length (phonemes eighteenPhonemes) < 4294967296"
    "length (words eighteenPhonemes) < 4294967296"
    by (simp_all add: length_phonemes_eighteen length_words_eighteen)
  have d: "speech_duration (synthesizeSpeech eighteenPhonemes) = 2589569785738035 / 2 ^ 51"
    by (simp add: synthesizeSpeech_def Let_def fullDuration_eighteen)
  have l: "length (speech_samples (synthesizeSpeech eighteenPhonemes)) = 55199"
    by (simp add: synthesizeSpeech_length bufferLength_eighteen)
  have d': "speech_duration (synthesizeSpeech defaultText) = 3937834924182077 / 2 ^ 49"
    by (simp add: synthesizeSpeech_def Let_def fullDuration_default)
  have l': "length (speech_samples (synthesizeSpeech defaultText)) = 335759"
    by (simp add: synthesizeSpeech_length bufferLength_default)
  from synthesizeSpeech_duration [OF h]
  have "\<bar>speech_duration (synthesizeSpeech eighteenPhonemes)
          - (max (55 / 1000 * real (length (phonemes eighteenPhonemes))) (9 / 10)
             + 8 / 100 * real (length (words eighteenPhonemes)))\<bar>
        \<le> (max (55 / 1000 * real (length (phonemes eighteenPhonemes))) (9 / 10)
             + 8 / 100 * real (length (words eighteenPhonemes))) / 2 ^ 51"
    by blast
  then have e: "\<bar>2589569785738035 / 2 ^ 51 - 115 / 100 :: real\<bar> \<le> (115 / 100) / 2 ^ 51"
    by (simp add: d length_phonemes_eighteen length_words_eighteen)
  have k: "length (speech_samples (synthesizeSpeech eighteenPhonemes)) + 1
       = max (2640 * length (phonemes eighteenPhonemes)) 43200
         + 3840 * length (words eighteenPhonemes)"
    by (simp add: l length_phonemes_eighteen length_words_eighteen)
  from h d e l k d' l' show ?thesis
    by blast
qed

text \<open>
  The text "Hi", two letters and one word: the phoneme durations and the word pause add up
  to 0.2 s; the synthesizer returns the double nearest to 0.98 s, on its floor of 0.9 s, and a
  buffer of 0.98 s. The text "abcdefgh ijklmnopq", above that floor: 1.26 s against the
  double nearest to 1.15 s and a buffer of 55199 samples.
\<close>

theorem synthesizeSpeech_duration_counterexample:
  "specDuration [0x48, 0x69] = 20 / 100
   \<and> speech_duration (synthesizeSpeech [0x48, 0x69]) = 2206763817411543 / 2 ^ 51
   \<and> real (length (speech_samples (synthesizeSpeech [0x48, 0x69]))) / 48000 = 98 / 100
   \<and> speech_duration (synthesizeSpeech [0x48, 0x69]) \<noteq> specDuration [0x48, 0x69]
   \<and> specDuration eighteenPhonemes = 126 / 100
   \<and> speech_duration (synthesizeSpeech eighteenPhonemes) = 2589569785738035 / 2 ^ 51
   \<and> real (length (speech_samples (synthesizeSpeech eighteenPhonemes))) / 48000 = 55199 / 48000
   \<and> speech_duration (synthesizeSpeech eighteenPhonemes) \<noteq> specDuration eighteenPhonemes"
proof -
  have d: "speech_duration (synthesizeSpeech [0x48, 0x69]) = 2206763817411543 / 2 ^ 51"
    by (simp add: synthesizeSpeech_def Let_def fullDuration_Hi)
  have l: "length (speech_samples (synthesizeSpeech [0x48, 0x69])) = 47040"
    by (simp add: synthesizeSpeech_length bufferLength_Hi)
  have d': "speech_duration (synthesizeSpeech eighteenPhonemes) = 2589569785738035 / 2 ^ 51"
    by (simp add: synthesizeSpeech_def Let_def fullDuration_eighteen)
  have l': "length (speech_samples (synthesizeSpeech eighteenPhonemes)) = 55199"
    by (simp add: synthesizeSpeech_length bufferLength_eighteen)
  show ?thesis
    by (simp add: d l d' l' specDuration_Hi specDuration_eighteen)
qed

subsection \<open>WAV encoder: the container in closed form\<close>

lemma zeros44: "replicate (44 + n) (0::byte) =
  [0,0,0,0,0,0,0,0,0,0,0,0,0,0,0,0,0,0,0,0,0,0,0,0,0,0,0,0,0,0,0,0,0,0,0,0,0,0,0,0,0,0,0,0] @ replicate n 0"
  by (simp add: replicate_add numeral_eq_Suc)

lemma encodeWav_header:
  "encodeWav input rate
     = floatTo16BitPCM (wavHeader (length input) rate @ replicate (length input * 2) 0) 44 input"
  unfolding encodeWav_def Let_def zeros44
  by (simp add: setUint8_def setUint16_def setUint32_def wavHeader_def le16_def le32_def
        list_update_append)

lemma setInt16_append:
  "setInt16 (pre @ a # b # rest) (length pre) x
     = Some (pre @ [of_int (truncateNumber x), of_int (truncateNumber x div 256)] @ rest)"
  by (simp add: setInt16_def Let_def list_update_append)

lemma floatTo16BitPCM_append:
  "length rest = length xs * 2 \<Longrightarrow>
   floatTo16BitPCM (pre @ rest) (length pre) xs = Some (pre @ concat (map pcm16 xs))"
proof (induction xs arbitrary: pre rest)
  case Nil
  then show ?case by simp
next
  case (Cons x xs)
  from Cons.prems obtain a b rest' where rest: "rest = a # b # rest'" and len: "length rest' = length xs * 2"
    by (cases rest; cases "tl rest") auto
  let ?v = "if max (- 1) (min 1 x) < 0 then max (- 1) (min 1 x) * 32768 else max (- 1) (min 1 x) * 32767"
  have "floatTo16BitPCM (pre @ rest) (length pre) (x # xs)
          = floatTo16BitPCM ((pre @ pcm16 x) @ rest') (length (pre @ pcm16 x)) xs"
    unfolding rest by (simp add: Let_def setInt16_append pcm16_def del: max.absorb1 max.absorb2 max.absorb3 max.absorb4 min.absorb1 min.absorb2 min.absorb3 min.absorb4)
  also have "\<dots> = Some ((pre @ pcm16 x) @ concat (map pcm16 xs))"
    by (rule Cons.IH [OF len])
  finally show ?case by simp
qed

lemma length_wavHeader: "length (wavHeader n rate) = 44"
  by (simp add: wavHeader_def le16_def le32_def)

lemma encodeWav_closed:
  "encodeWav input rate = Some (wavHeader (length input) rate @ concat (map pcm16 input))"
  using floatTo16BitPCM_append [of "replicate (length input * 2) 0" input "wavHeader (length input) rate"]
  by (simp add: encodeWav_header length_wavHeader)

lemma length_pcm16: "length (pcm16 x) = 2"
  by (simp add: pcm16_def Let_def)

lemma length_concat_pcm16: "length (concat (map pcm16 xs)) = length xs * 2"
  by (induction xs) (simp_all add: length_pcm16)

lemma unat_byte_of_nat: "unat (of_nat v :: byte) = v mod 256"
  by (simp add: unat_of_nat)

lemma le32_value:
  "unat (of_nat v :: byte) + 256 * unat (of_nat (v div 256) :: byte)
     + 65536 * unat (of_nat (v div 65536) :: byte)
     + 16777216 * unat (of_nat (v div 16777216) :: byte) = v mod 4294967296"
proof -
  have a: "v mod (65536 * 65536) = 65536 * (v div 65536 mod 65536) + v mod 65536"
    by (rule mod_mult2_eq)
  have b: "v mod (256 * 256) = 256 * (v div 256 mod 256) + v mod 256"
    by (rule mod_mult2_eq)
  have c: "(v div 65536) mod (256 * 256) = 256 * (v div 65536 div 256 mod 256) + v div 65536 mod 256"
    by (rule mod_mult2_eq)
  have d: "v div 65536 div 256 = v div 16777216"
    by (simp add: div_mult2_eq [symmetric])
  from a b c d show ?thesis
    by (simp add: unat_byte_of_nat)
qed

lemma int16_roundtrip:
  assumes "- 32768 \<le> i" and "i \<le> 32767"
  shows "int16 (of_int i) (of_int (i div 256)) = i"
proof -
  define n where "n = unat (of_int i :: byte) + 256 * unat (of_int (i div 256) :: byte)"
  have m: "i mod (256 * 256) = 256 * (i div 256 mod 256) + i mod 256"
    by (rule zmod_zmult2_eq) simp
  have u: "int n = i mod 65536"
    using m by (simp add: n_def uint_word_of_int)
  have r: "int16 (of_int i) (of_int (i div 256)) = (if n < 32768 then int n else int n - 65536)"
    by (simp add: int16_def Let_def n_def)
  show ?thesis
  proof (cases "0 \<le> i")
    case True
    with assms have "i mod 65536 = i"
      by (simp add: mod_pos_pos_trivial)
    with u have "int n = i"
      by simp
    moreover from this assms have "n < 32768"
      by linarith
    ultimately show ?thesis
      by (simp add: r)
  next
    case False
    have "(i + 65536) mod 65536 = i + 65536"
      using False assms by (intro mod_pos_pos_trivial) simp_all
    then have "i mod 65536 = i + 65536"
      by simp
    with u have "int n = i + 65536"
      by simp
    moreover from this assms have "\<not> n < 32768"
      by linarith
    ultimately show ?thesis
      by (simp add: r)
  qed
qed

lemma truncate_clamped_range:
  "- 32768 \<le> truncateNumber (if max (- 1) (min 1 x) < 0 then max (- 1) (min 1 x) * 32768
                                 else max (- 1) (min 1 x) * 32767)
   \<and> truncateNumber (if max (- 1) (min 1 x) < 0 then max (- 1) (min 1 x) * 32768
                       else max (- 1) (min 1 x) * 32767) \<le> 32767"
proof -
  define c where "c = max (- 1) (min 1 x)"
  have c: "- 1 \<le> c" "c \<le> 1"
    by (simp_all add: c_def)
  show ?thesis
    unfolding c_def [symmetric]
  proof (cases "c < 0")
    case True
    have "- 32768 \<le> \<lceil>c * 32768\<rceil>"
      using c by (simp add: le_ceiling_iff)
    moreover have "\<lceil>c * 32768\<rceil> \<le> 0"
      using True by (simp add: ceiling_le_iff mult_le_0_iff)
    ultimately show "- 32768 \<le> truncateNumber (if c < 0 then c * 32768 else c * 32767)
        \<and> truncateNumber (if c < 0 then c * 32768 else c * 32767) \<le> 32767"
      using True by (simp add: truncateNumber_def)
  next
    case False
    have "0 \<le> \<lfloor>c * 32767\<rfloor>"
      using False by simp
    moreover have "\<lfloor>c * 32767\<rfloor> \<le> 32767"
      using c by (simp add: floor_le_iff)
    ultimately show "- 32768 \<le> truncateNumber (if c < 0 then c * 32768 else c * 32767)
        \<and> truncateNumber (if c < 0 then c * 32768 else c * 32767) \<le> 32767"
      using False by (simp add: truncateNumber_def)
  qed
qed

lemma pcmSamples_pcm16: "pcmSamples (concat (map pcm16 xs)) = map pcmValue xs"
proof (induction xs)
  case Nil
  then show ?case by simp
next
  case (Cons x xs)
  from truncate_clamped_range [of x] Cons.IH show ?case
    by (simp add: pcm16_def pcmValue_def Let_def int16_roundtrip
        del: max.absorb1 max.absorb2 max.absorb3 max.absorb4 min.absorb1 min.absorb2 min.absorb3 min.absorb4)
qed

lemma wavHeader_eq: "wavHeader n rate = wavHeaderFields (36 + n * 2) rate (rate * 2) (n * 2)"
  by (simp only: wavHeader_def wavHeaderFields_def)

lemma wavHeaderFields_read:
  "getUint32 (wavHeaderFields a r b d @ body) 4 = a mod 4294967296"
  "getUint32 (wavHeaderFields a r b d @ body) 16 = 16"
  "getUint16 (wavHeaderFields a r b d @ body) 20 = 1"
  "getUint16 (wavHeaderFields a r b d @ body) 22 = 1"
  "getUint32 (wavHeaderFields a r b d @ body) 24 = r mod 4294967296"
  "getUint32 (wavHeaderFields a r b d @ body) 28 = b mod 4294967296"
  "getUint16 (wavHeaderFields a r b d @ body) 32 = 2"
  "getUint16 (wavHeaderFields a r b d @ body) 34 = 16"
  "getUint32 (wavHeaderFields a r b d @ body) 40 = d mod 4294967296"
  by (simp_all add: getUint32_def getUint16_def wavHeaderFields_def le32_def le16_def le32_value)

lemma wavHeader_fields:
  "getUint32 (wavHeader n rate @ body) 4 = (36 + n * 2) mod 4294967296"
  "getUint32 (wavHeader n rate @ body) 16 = 16"
  "getUint16 (wavHeader n rate @ body) 20 = 1"
  "getUint16 (wavHeader n rate @ body) 22 = 1"
  "getUint32 (wavHeader n rate @ body) 24 = rate mod 4294967296"
  "getUint32 (wavHeader n rate @ body) 28 = (rate * 2) mod 4294967296"
  "getUint16 (wavHeader n rate @ body) 32 = 2"
  "getUint16 (wavHeader n rate @ body) 34 = 16"
  "getUint32 (wavHeader n rate @ body) 40 = (n * 2) mod 4294967296"
  by (simp_all only: wavHeader_eq wavHeaderFields_read)

lemma wavHeader_tags:
  "readTag (wavHeader n rate @ body) 0 = [0x52, 0x49, 0x46, 0x46]"
  "readTag (wavHeader n rate @ body) 8 = [0x57, 0x41, 0x56, 0x45]"
  "readTag (wavHeader n rate @ body) 12 = [0x66, 0x6D, 0x74, 0x20]"
  "readTag (wavHeader n rate @ body) 36 = [0x64, 0x61, 0x74, 0x61]"
  by (simp_all add: readTag_def wavHeader_def le32_def le16_def)

lemma drop_wavHeader: "drop 44 (wavHeader n rate @ body) = body"
  by (simp add: length_wavHeader)

lemma parseWav_encodeWav:
  assumes "length input * 2 < 4294967296" and "rate < 4294967296"
  shows "Option.bind (encodeWav input rate) parseWav
           = Some \<lparr>wav_sampleRate = rate, wav_samples = map pcmValue input\<rparr>"
  using assms
  by (simp add: encodeWav_closed parseWav_def wavHeader_fields wavHeader_tags drop_wavHeader
      length_wavHeader length_concat_pcm16 pcmSamples_pcm16 Let_def)

lemma quantize_negative:
  fixes q c :: real
  assumes "c * 32768 \<le> q" and "q < c * 32768 + 1"
  shows "\<bar>q / 32768 - c\<bar> < 1 / 32768"
  using assms unfolding abs_less_iff by (intro conjI; linarith)

lemma quantize_positive:
  fixes q c :: real
  assumes "q \<le> c * 32767" and "c * 32767 < q + 1" and "0 \<le> c" and "c \<le> 1"
  shows "\<bar>q / 32768 - c\<bar> < 2 / 32768 \<and> (c \<le> 0 \<longrightarrow> \<bar>q / 32768 - c\<bar> < 1 / 32768)"
  using assms unfolding abs_less_iff by (intro conjI impI; linarith)

lemma pcmValue_error:
  "\<bar>pcmValue x - max (- 1) (min 1 x)\<bar> < 2 / 32768
   \<and> (max (- 1) (min 1 x) \<le> 0 \<longrightarrow> \<bar>pcmValue x - max (- 1) (min 1 x)\<bar> < 1 / 32768)"
proof -
  define c where "c = max (- 1) (min 1 x)"
  have c: "- 1 \<le> c" "c \<le> 1"
    by (simp_all add: c_def)
  have v: "pcmValue x = real_of_int (truncateNumber (if c < 0 then c * 32768 else c * 32767)) / 32768"
    by (simp only: pcmValue_def c_def Let_def)
  show ?thesis
    unfolding c_def [symmetric]
  proof (cases "c < 0")
    case True
    have "c * 32768 \<le> real_of_int \<lceil>c * 32768\<rceil>" and "real_of_int \<lceil>c * 32768\<rceil> < c * 32768 + 1"
      by linarith+
    from quantize_negative [OF this] True
    show "\<bar>pcmValue x - c\<bar> < 2 / 32768 \<and> (c \<le> 0 \<longrightarrow> \<bar>pcmValue x - c\<bar> < 1 / 32768)"
      by (simp add: v truncateNumber_def)
  next
    case False
    then have "0 \<le> c"
      by simp
    have "real_of_int \<lfloor>c * 32767\<rfloor> \<le> c * 32767" and "c * 32767 < real_of_int \<lfloor>c * 32767\<rfloor> + 1"
      by linarith+
    from quantize_positive [OF this \<open>0 \<le> c\<close> c(2)] False
    show "\<bar>pcmValue x - c\<bar> < 2 / 32768 \<and> (c \<le> 0 \<longrightarrow> \<bar>pcmValue x - c\<bar> < 1 / 32768)"
      by (simp add: v truncateNumber_def)
  qed
qed

subsection \<open>WAV encoder: header\<close>

lemma encodeWav_fields:
  "\<exists>bytes. encodeWav input rate = Some bytes
     \<and> length bytes = 44 + 2 * length input
     \<and> readTag bytes 0 = [0x52, 0x49, 0x46, 0x46]
     \<and> riffSizeField bytes = (36 + 2 * length input) mod 4294967296
     \<and> readTag bytes 8 = [0x57, 0x41, 0x56, 0x45]
     \<and> readTag bytes 12 = [0x66, 0x6D, 0x74, 0x20]
     \<and> fmtSizeField bytes = 16
     \<and> audioFormatField bytes = 1
     \<and> numChannelsField bytes = 1
     \<and> sampleRateField bytes = rate mod 4294967296
     \<and> byteRateField bytes = (rate * 2) mod 4294967296
     \<and> blockAlignField bytes = 2
     \<and> bitsPerSampleField bytes = 16
     \<and> readTag bytes 36 = [0x64, 0x61, 0x74, 0x61]
     \<and> dataSizeField bytes = (2 * length input) mod 4294967296"
  by (simp add: encodeWav_closed length_wavHeader length_concat_pcm16 wavHeader_fields
      wavHeader_tags riffSizeField_def fmtSizeField_def audioFormatField_def
      numChannelsField_def sampleRateField_def byteRateField_def blockAlignField_def
      bitsPerSampleField_def dataSizeField_def mult.commute)

text \<open>
  C4, as the code has it. For a buffer of N samples and a sample rate R with
  36 + 2N < 2^32 and 2R < 2^32, \<^verbatim>\<open>encodeWav\<close> returns a container of 44 + 2N bytes with the
  tags RIFF, WAVE, fmt and data, format 1 (linear PCM), one channel, RIFF chunk size
  36 + 2N, sample rate R, byte rate R times the block align, block align 2, 16 bits per
  sample and data chunk size 2N. The header fields are 32 bits wide: beyond these bounds
  the sizes and rates are stored modulo 2^32.
\<close>

theorem encodeWav_header_exact:
  assumes "36 + 2 * length input < 4294967296" and "2 * rate < 4294967296"
  shows "\<exists>bytes. encodeWav input rate = Some bytes
     \<and> length bytes = 44 + 2 * length input
     \<and> readTag bytes 0 = [0x52, 0x49, 0x46, 0x46]
     \<and> riffSizeField bytes = 36 + 2 * length input
     \<and> readTag bytes 8 = [0x57, 0x41, 0x56, 0x45]
     \<and> readTag bytes 12 = [0x66, 0x6D, 0x74, 0x20]
     \<and> fmtSizeField bytes = 16
     \<and> audioFormatField bytes = 1
     \<and> numChannelsField bytes = 1
     \<and> sampleRateField bytes = rate
     \<and> byteRateField bytes = rate * blockAlignField bytes
     \<and> blockAlignField bytes = 2
     \<and> bitsPerSampleField bytes = 16
     \<and> readTag bytes 36 = [0x64, 0x61, 0x74, 0x61]
     \<and> dataSizeField bytes = 2 * length input"
proof -
  from encodeWav_fields [of input rate] obtain bytes where
    b: "encodeWav input rate = Some bytes"
      "length bytes = 44 + 2 * length input"
      "readTag bytes 0 = [0x52, 0x49, 0x46, 0x46]"
      "riffSizeField bytes = (36 + 2 * length input) mod 4294967296"
      "readTag bytes 8 = [0x57, 0x41, 0x56, 0x45]"
      "readTag bytes 12 = [0x66, 0x6D, 0x74, 0x20]"
      "fmtSizeField bytes = 16"
      "audioFormatField bytes = 1"
      "numChannelsField bytes = 1"
      "sampleRateField bytes = rate mod 4294967296"
      "byteRateField bytes = (rate * 2) mod 4294967296"
      "blockAlignField bytes = 2"
      "bitsPerSampleField bytes = 16"
      "readTag bytes 36 = [0x64, 0x61, 0x74, 0x61]"
      "dataSizeField bytes = (2 * length input) mod 4294967296"
    by blast
  from assms have "(36 + 2 * length input) mod 4294967296 = 36 + 2 * length input"
    and "rate mod 4294967296 = rate" and "(rate * 2) mod 4294967296 = rate * 2"
    and "(2 * length input) mod 4294967296 = 2 * length input"
    by simp_all
  with b show ?thesis
    by simp
qed

text \<open>The samples 0, 1/2 and -1 at 48000 Hz: the 50 bytes, and the fields read back.\<close>

lemma encodeWav_three: "encodeWav [0, 1 / 2, - 1] 48000 = Some threeSampleWav"
  by (simp add: encodeWav_closed wavHeader_def le16_def le32_def pcm16_def truncateNumber_def
      threeSampleWav_def)

theorem encodeWav_header_exact_witness:
  "36 + 2 * length [0, 1 / 2, - 1 :: real] < (4294967296 :: nat)
   \<and> 2 * 48000 < (4294967296 :: nat)
   \<and> encodeWav [0, 1 / 2, - 1] 48000 = Some threeSampleWav
   \<and> length threeSampleWav = 50
   \<and> riffSizeField threeSampleWav = 42
   \<and> sampleRateField threeSampleWav = 48000
   \<and> byteRateField threeSampleWav = 96000
   \<and> blockAlignField threeSampleWav = 2
   \<and> bitsPerSampleField threeSampleWav = 16
   \<and> dataSizeField threeSampleWav = 6"
  using encodeWav_header_exact [of "[0, 1 / 2, - 1]" 48000]
  by (simp add: encodeWav_three)

text \<open>
  At 2147483648 Hz the byte rate field holds 0, not twice the rate; for 2147483648 samples
  the data chunk size holds 0 and the RIFF chunk size 36.
\<close>

lemma encodeWav_empty_2GHz: "encodeWav [] 2147483648 = Some emptyWavAt2GHz"
  by (simp add: encodeWav_closed wavHeader_def le16_def le32_def emptyWavAt2GHz_def)

theorem encodeWav_header_exact_counterexample:
  "encodeWav [] 2147483648 = Some emptyWavAt2GHz
   \<and> byteRateField emptyWavAt2GHz = 0
   \<and> blockAlignField emptyWavAt2GHz = 2
   \<and> byteRateField emptyWavAt2GHz \<noteq> 2147483648 * blockAlignField emptyWavAt2GHz
   \<and> map_option dataSizeField (encodeWav (replicate 2147483648 0) 48000) = Some 0
   \<and> map_option riffSizeField (encodeWav (replicate 2147483648 0) 48000) = Some 36"
proof -
  have "byteRateField emptyWavAt2GHz = 0" and "blockAlignField emptyWavAt2GHz = 2"
    by (simp_all add: byteRateField_def blockAlignField_def getUint32_def getUint16_def
        emptyWavAt2GHz_def)
  moreover have "map_option dataSizeField (encodeWav (replicate 2147483648 0) 48000) = Some 0"
    and "map_option riffSizeField (encodeWav (replicate 2147483648 0) 48000) = Some 36"
    by (simp_all add: encodeWav_closed dataSizeField_def riffSizeField_def wavHeader_fields)
  ultimately show ?thesis
    by (simp add: encodeWav_empty_2GHz)
qed

subsection \<open>WAV encoder: round trip\<close>

text \<open>
  C3, as the code has it. For N samples with 2N < 2^32 and a rate R < 2^32, parsing the
  container that \<^verbatim>\<open>encodeWav\<close> returns yields N samples at rate R. Each decoded sample
  differs from the input sample clamped to [-1,1] by less than 2/32768, and by less than
  1/32768 when the clamped sample is not positive: negative samples are scaled by 32768,
  positive ones by 32767, and the scaled value is truncated towards zero.
\<close>

theorem wav_roundtrip:
  assumes "2 * length input < 4294967296" and "rate < 4294967296"
  shows "\<exists>decoded.
           Option.bind (encodeWav input rate) parseWav
             = Some \<lparr>wav_sampleRate = rate, wav_samples = decoded\<rparr>
           \<and> length decoded = length input
           \<and> (\<forall>i < length input.
                 \<bar>decoded ! i - max (- 1) (min 1 (input ! i))\<bar> < 2 / 32768
                 \<and> (max (- 1) (min 1 (input ! i)) \<le> 0 \<longrightarrow>
                      \<bar>decoded ! i - max (- 1) (min 1 (input ! i))\<bar> < 1 / 32768))"
proof -
  from assms have "Option.bind (encodeWav input rate) parseWav
      = Some \<lparr>wav_sampleRate = rate, wav_samples = map pcmValue input\<rparr>"
    by (simp add: parseWav_encodeWav mult.commute)
  moreover have "\<forall>i < length input.
      \<bar>map pcmValue input ! i - max (- 1) (min 1 (input ! i))\<bar> < 2 / 32768
      \<and> (max (- 1) (min 1 (input ! i)) \<le> 0 \<longrightarrow>
           \<bar>map pcmValue input ! i - max (- 1) (min 1 (input ! i))\<bar> < 1 / 32768)"
    using pcmValue_error by simp
  ultimately show ?thesis
    by (intro exI [of _ "map pcmValue input"]) simp
qed

text \<open>The samples -1/2 and 1/3 at 44100 Hz: -1/2 is exact, 1/3 comes back as 10922/32768.\<close>

lemma roundtrip_example:
  "Option.bind (encodeWav [- 1 / 2, 1 / 3] 44100) parseWav
     = Some \<lparr>wav_sampleRate = 44100, wav_samples = [- 1 / 2, 10922 / 32768]\<rparr>"
  by (simp add: parseWav_encodeWav pcmValue_def truncateNumber_def)

theorem wav_roundtrip_witness:
  "2 * length [- 1 / 2, 1 / 3 :: real] < (4294967296 :: nat)
   \<and> (44100 :: nat) < 4294967296
   \<and> Option.bind (encodeWav [- 1 / 2, 1 / 3] 44100) parseWav
       = Some \<lparr>wav_sampleRate = 44100, wav_samples = [- 1 / 2, 10922 / 32768]\<rparr>
   \<and> \<bar>10922 / 32768 - 1 / 3 :: real\<bar> < 2 / 32768"
proof -
  have h1: "2 * length [- 1 / 2, 1 / 3 :: real] < (4294967296 :: nat)"
    by simp
  have h2: "(44100 :: nat) < 4294967296"
    by simp
  from wav_roundtrip [OF h1 h2] obtain decoded where
    d: "Option.bind (encodeWav [- 1 / 2, 1 / 3] 44100) parseWav
          = Some \<lparr>wav_sampleRate = 44100, wav_samples = decoded\<rparr>"
    and e: "\<forall>i < length [- 1 / 2, 1 / 3 :: real].
              \<bar>decoded ! i - max (- 1) (min 1 ([- 1 / 2, 1 / 3] ! i))\<bar> < 2 / 32768"
    by blast
  from d have "decoded = [- 1 / 2, 10922 / 32768]"
    by (simp only: roundtrip_example) simp
  moreover from e [THEN spec, of 1]
  have "\<bar>decoded ! 1 - max (- 1) (min 1 ([- 1 / 2, 1 / 3] ! 1))\<bar> < 2 / 32768"
    by simp
  ultimately have "\<bar>10922 / 32768 - 1 / 3 :: real\<bar> < 2 / 32768"
    by simp
  with h1 h2 roundtrip_example show ?thesis
    by blast
qed

text \<open>
  The samples 2 and 65535/65536 come back as 32767/32768 and 32766/32768: the first is
  clamped, the second is scaled by 32767 and truncated; both are off by more than 1/32768.
\<close>

theorem wav_roundtrip_counterexample:
  "Option.bind (encodeWav [2, 65535 / 65536] 48000) parseWav
     = Some \<lparr>wav_sampleRate = 48000, wav_samples = [32767 / 32768, 32766 / 32768]\<rparr>
   \<and> 1 / 32768 < \<bar>32767 / 32768 - 2 :: real\<bar>
   \<and> 1 / 32768 < \<bar>32766 / 32768 - 65535 / 65536 :: real\<bar>"
  by (simp add: parseWav_encodeWav pcmValue_def truncateNumber_def)

end
